theory Spec2Isabelle
  imports Complex_Main
begin

section \<open>Python values and failures\<close>

text \<open>
  The two calculators (\<^verbatim>\<open>economic_calculator.py\<close>, \<^verbatim>\<open>bess_calculator.py\<close>) compute
  with Python numbers. A number is modelled as a \<^typ>\<open>real\<close>: arithmetic is exact, the
  literals \<^verbatim>\<open>0.1\<close>, \<^verbatim>\<open>1e-6\<close>, \<^verbatim>\<open>1e-10\<close> are the decimal fractions they
  denote, and rounding, overflow and NaN of IEEE doubles are outside the model. The two
  infinities the code writes (\<^verbatim>\<open>float('inf')\<close>, \<^verbatim>\<open>float('-inf')\<close>) are values of
  their own. Every exception the code can raise in exact arithmetic is a value of
  \<open>py_error\<close>, and a function that can raise returns \<open>py_error + 'a\<close>.
\<close>

datatype py_error =
    TypeError | AttributeError | IndexError | KeyError | ZeroDivisionError
  | UnboundLocalError
  | InvalidInputError \<comment> \<open>named by the specification; no statement of the code raises it\<close>

datatype pyfloat = NegInf | Finite real | PosInf

fun pyfloat_less :: "pyfloat \<Rightarrow> pyfloat \<Rightarrow> bool" where
  "pyfloat_less NegInf NegInf = False"
| "pyfloat_less NegInf _ = True"
| "pyfloat_less (Finite a) (Finite b) = (a < b)"
| "pyfloat_less (Finite a) PosInf = True"
| "pyfloat_less (Finite a) NegInf = False"
| "pyfloat_less PosInf _ = False"

definition bind_err :: "'e + 'a \<Rightarrow> ('a \<Rightarrow> 'e + 'b) \<Rightarrow> 'e + 'b" where
  "bind_err m f = (case m of Inl e \<Rightarrow> Inl e | Inr x \<Rightarrow> f x)"

text \<open>\<^verbatim>\<open>a / b\<close>: Python raises ZeroDivisionError for a zero divisor, int or float.\<close>

definition py_div :: "real \<Rightarrow> real \<Rightarrow> py_error + real" where
  "py_div a b = (if b = 0 then Inl ZeroDivisionError else Inr (a / b))"

text \<open>\<^verbatim>\<open>xs[i]\<close> for an index \<open>i \<ge> 0\<close>.\<close>

definition py_index :: "'a list \<Rightarrow> nat \<Rightarrow> py_error + 'a" where
  "py_index xs i = (if i < length xs then Inr (xs ! i) else Inl IndexError)"

text \<open>\<^verbatim>\<open>range(n)\<close> for an int \<open>n\<close>: empty when \<open>n \<le> 0\<close>.\<close>

definition py_range :: "int \<Rightarrow> nat list" where
  "py_range n = [0..<nat n]"

section \<open>Economic primitives (\<^verbatim>\<open>economic_calculator.py\<close>)\<close>

subsection \<open>\<^verbatim>\<open>_calculate_npv\<close>\<close>

text \<open>
  \<^verbatim>\<open>
  npv = 0
  for i, cf in enumerate(cash_flows):
      npv += cf / (1 + discount_rate) ** i
  return npv
  \<close>
  The loop carries the index and the running sum. \<^verbatim>\<open>x ** 0\<close> is 1 also for \<open>x = 0\<close>,
  as is \<open>x ^ 0\<close>.
\<close>

fun npv_loop :: "real \<Rightarrow> nat \<Rightarrow> real list \<Rightarrow> real \<Rightarrow> py_error + real" where
  "npv_loop discount_rate i [] npv = Inr npv"
| "npv_loop discount_rate i (cf # cash_flows) npv =
     (case py_div cf ((1 + discount_rate) ^ i) of
        Inl e \<Rightarrow> Inl e
      | Inr t \<Rightarrow> npv_loop discount_rate (Suc i) cash_flows (npv + t))"

definition calculate_npv :: "real list \<Rightarrow> real \<Rightarrow> py_error + real" where
  "calculate_npv cash_flows discount_rate = npv_loop discount_rate 0 cash_flows 0"

subsection \<open>\<^verbatim>\<open>_calculate_payback\<close>\<close>

text \<open>
  \<^verbatim>\<open>
  cumulative_cf = 0
  for year, cf in enumerate(cash_flows):
      cumulative_cf += cf
      if cumulative_cf >= initial_investment:
          if year == 0:
              return cf / initial_investment if cf > 0 else float('inf')
          previous_cumulative = cumulative_cf - cf
          fraction = (initial_investment - previous_cumulative) / cf
          return year + fraction
  return float('inf')
  \<close>
\<close>

fun payback_loop :: "real \<Rightarrow> nat \<Rightarrow> real \<Rightarrow> real list \<Rightarrow> py_error + pyfloat" where
  "payback_loop initial_investment year cumulative_cf [] = Inr PosInf"
| "payback_loop initial_investment year cumulative_cf (cf # cash_flows) =
     (let cumulative_cf = cumulative_cf + cf in
      if cumulative_cf \<ge> initial_investment then
        (if year = 0 then
           (if cf > 0 then map_sum id Finite (py_div cf initial_investment) else Inr PosInf)
         else
           (let previous_cumulative = cumulative_cf - cf in
            case py_div (initial_investment - previous_cumulative) cf of
              Inl e \<Rightarrow> Inl e
            | Inr fraction \<Rightarrow> Inr (Finite (real year + fraction))))
      else payback_loop initial_investment (Suc year) cumulative_cf cash_flows)"

definition calculate_payback :: "real \<Rightarrow> real list \<Rightarrow> py_error + pyfloat" where
  "calculate_payback initial_investment cash_flows =
     payback_loop initial_investment 0 0 cash_flows"

text \<open>
  The payback period in the specification's words: the first year index \<open>y\<close> whose
  cumulative sum reaches the investment, plus the interpolated fraction
  \<open>(investment - cumulative before y) / cash flow of y\<close>; "never" when no year reaches it.
\<close>

fun payback_spec_from :: "real \<Rightarrow> nat \<Rightarrow> real \<Rightarrow> real list \<Rightarrow> pyfloat" where
  "payback_spec_from investment y before [] = PosInf"
| "payback_spec_from investment y before (cf # cfs) =
     (if before + cf \<ge> investment then Finite (real y + (investment - before) / cf)
      else payback_spec_from investment (Suc y) (before + cf) cfs)"

definition payback_spec :: "real \<Rightarrow> real list \<Rightarrow> pyfloat" where
  "payback_spec investment cfs = payback_spec_from investment 0 0 cfs"

subsection \<open>\<^verbatim>\<open>_calculate_irr\<close>\<close>

text \<open>
  \<^verbatim>\<open>
  try:
      rate = 0.1
      for _ in range(100):
          npv = sum(cf / (1 + rate) ** i for i, cf in enumerate(cash_flows))
          npv_derivative = sum(-i * cf / (1 + rate) ** (i + 1)
                               for i, cf in enumerate(cash_flows) if i > 0)
          if abs(npv) < 1e-6:
              return rate
          if abs(npv_derivative) < 1e-10:
              break
          rate = rate - npv / npv_derivative
          if rate < -0.99:
              rate = -0.99
          elif rate > 10:
              rate = 10
      return rate if -1 < rate < 10 else 0
  except Exception:
      return 0
  \<close>
  The two generator sums are loops over the enumerated list; \<open>irr_body\<close> is the
  \<^verbatim>\<open>try\<close> block and \<open>calculate_irr\<close> adds the \<^verbatim>\<open>except\<close> clause.
\<close>

fun irr_npv :: "real \<Rightarrow> nat \<Rightarrow> real list \<Rightarrow> real \<Rightarrow> py_error + real" where
  "irr_npv rate i [] acc = Inr acc"
| "irr_npv rate i (cf # cash_flows) acc =
     (case py_div cf ((1 + rate) ^ i) of
        Inl e \<Rightarrow> Inl e
      | Inr t \<Rightarrow> irr_npv rate (Suc i) cash_flows (acc + t))"

fun irr_npv_derivative :: "real \<Rightarrow> nat \<Rightarrow> real list \<Rightarrow> real \<Rightarrow> py_error + real" where
  "irr_npv_derivative rate i [] acc = Inr acc"
| "irr_npv_derivative rate i (cf # cash_flows) acc =
     (if i > 0 then
        (case py_div (- real i * cf) ((1 + rate) ^ (i + 1)) of
           Inl e \<Rightarrow> Inl e
         | Inr t \<Rightarrow> irr_npv_derivative rate (Suc i) cash_flows (acc + t))
      else irr_npv_derivative rate (Suc i) cash_flows acc)"

definition irr_final :: "real \<Rightarrow> real" where
  "irr_final rate = (if -1 < rate \<and> rate < 10 then rate else 0)"

definition irr_clamp :: "real \<Rightarrow> real" where
  "irr_clamp rate = (if rate < - (99 / 100) then - (99 / 100) else if rate > 10 then 10 else rate)"

fun irr_loop :: "nat \<Rightarrow> real \<Rightarrow> real list \<Rightarrow> py_error + real" where
  "irr_loop 0 rate cash_flows = Inr (irr_final rate)"
| "irr_loop (Suc n) rate cash_flows =
     (case irr_npv rate 0 cash_flows 0 of
        Inl e \<Rightarrow> Inl e
      | Inr npv \<Rightarrow>
          (case irr_npv_derivative rate 0 cash_flows 0 of
             Inl e \<Rightarrow> Inl e
           | Inr npv_derivative \<Rightarrow>
               if \<bar>npv\<bar> < 1 / 10 ^ 6 then Inr rate
               else if \<bar>npv_derivative\<bar> < 1 / 10 ^ 10 then Inr (irr_final rate)
               else (case py_div npv npv_derivative of
                       Inl e \<Rightarrow> Inl e
                     | Inr q \<Rightarrow> irr_loop n (irr_clamp (rate - q)) cash_flows)))"

definition irr_body :: "real list \<Rightarrow> py_error + real" where
  "irr_body cash_flows = irr_loop 100 (1 / 10) cash_flows"

definition calculate_irr :: "real list \<Rightarrow> real" where
  "calculate_irr cash_flows = (case irr_body cash_flows of Inl e \<Rightarrow> 0 | Inr rate \<Rightarrow> rate)"

text \<open>
  The iteration in the specification's words: the net present value and its derivative
  as sums, the sequence of Newton-Raphson rates from 0.10 with each update clamped into
  \<open>[-0.99, 10]\<close>, and the first of the at most 100 iterations at which the value has
  converged or the derivative is flat.
\<close>

definition npv_at :: "real list \<Rightarrow> real \<Rightarrow> real" where
  "npv_at cfs rate = sum_list (map (\<lambda>i. cfs ! i / (1 + rate) ^ i) [0..<length cfs])"

definition npv_derivative_at :: "real list \<Rightarrow> real \<Rightarrow> real" where
  "npv_derivative_at cfs rate =
     sum_list (map (\<lambda>i. - real i * cfs ! i / (1 + rate) ^ (i + 1)) [1..<length cfs])"

primrec newton_rate :: "real list \<Rightarrow> nat \<Rightarrow> real" where
  "newton_rate cfs 0 = 1 / 10"
| "newton_rate cfs (Suc k) =
     irr_clamp (newton_rate cfs k
                - npv_at cfs (newton_rate cfs k) / npv_derivative_at cfs (newton_rate cfs k))"

definition irr_converged :: "real list \<Rightarrow> nat \<Rightarrow> bool" where
  "irr_converged cfs k = (\<bar>npv_at cfs (newton_rate cfs k)\<bar> < 1 / 10 ^ 6)"

definition irr_flat :: "real list \<Rightarrow> nat \<Rightarrow> bool" where
  "irr_flat cfs k = (\<bar>npv_derivative_at cfs (newton_rate cfs k)\<bar> < 1 / 10 ^ 10)"

definition irr_stop_within :: "real list \<Rightarrow> nat \<Rightarrow> nat \<Rightarrow> real" where
  "irr_stop_within cfs k n =
     (case find (\<lambda>j. irr_converged cfs j \<or> irr_flat cfs j) [k..<k + n] of
        None \<Rightarrow> irr_final (newton_rate cfs (k + n))
      | Some j \<Rightarrow> if irr_converged cfs j then newton_rate cfs j
                  else irr_final (newton_rate cfs j))"

definition irr_spec :: "real list \<Rightarrow> real" where
  "irr_spec cfs = irr_stop_within cfs 0 100"

section \<open>The BESS sizing engine (\<^verbatim>\<open>bess_calculator.py\<close>)\<close>

subsection \<open>Data\<close>

record BESSParameters =
  dod :: real
  c_rate :: real
  efficiency :: real
  cycle_life :: int
  capex_per_kwh :: real
  opex_annual_percent :: real
  degradation_annual :: real

definition default_BESSParameters :: BESSParameters where
  "default_BESSParameters =
     \<lparr>dod = 8 / 10, c_rate = 5 / 10, efficiency = 95 / 100, cycle_life = 6000,
      capex_per_kwh = 500, opex_annual_percent = 1, degradation_annual = 2 / 100\<rparr>"

record ConsumptionProfile =
  monthly_kwh :: "real list"
  f1_percent :: real
  f2_percent :: real
  f3_percent :: real
  granularity :: string

text \<open>
  The dicts that the helper methods return, one record each: a key \<^verbatim>\<open>'k'\<close> of the
  baseline dict is the field \<open>baseline_k\<close>, of the battery scenario dict \<open>bess_k\<close>, of one
  entry of \<^verbatim>\<open>monthly_results\<close> \<open>r_k\<close>, and of the technical metrics \<open>metric_k\<close>.
\<close>

record baseline_scenario =
  baseline_annual_pv_production :: real
  baseline_annual_consumption :: real
  baseline_annual_self_consumption :: real
  baseline_annual_grid_import :: real
  baseline_annual_grid_export :: real
  baseline_annual_electricity_cost :: real
  baseline_annual_feed_in_revenue :: real
  baseline_annual_net_cost :: real
  baseline_self_consumption_rate :: real

record month_result =
  r_self_consumption :: real
  r_grid_import :: real
  r_grid_export :: real
  r_throughput :: real

record bess_scenario =
  bess_annual_self_consumption :: real
  bess_annual_grid_import :: real
  bess_annual_grid_export :: real
  bess_annual_electricity_cost :: real
  bess_annual_feed_in_revenue :: real
  bess_annual_net_cost :: real
  bess_annual_savings :: real
  bess_daily_energy_throughput :: real
  bess_monthly_results :: "month_result list"

record technical_metrics =
  metric_daily_cycles :: real
  metric_total_cycles_20_years :: real
  metric_capacity_retention_20_years :: real

subsection \<open>\<^verbatim>\<open>_calculate_baseline_scenario\<close>\<close>

text \<open>
  The loop \<^verbatim>\<open>for i in range(12)\<close> appends to the three lists self-consumption, import,
  export. \<^verbatim>\<open>min(pv_production[i], consumption[i])\<close> reads the production first.
\<close>

fun baseline_months ::
  "real list \<Rightarrow> real list \<Rightarrow> nat list \<Rightarrow> real list \<times> real list \<times> real list
   \<Rightarrow> py_error + real list \<times> real list \<times> real list" where
  "baseline_months pv_production consumption [] acc = Inr acc"
| "baseline_months pv_production consumption (i # rest)
     (monthly_self_consumption, monthly_grid_import, monthly_grid_export) =
     (case py_index pv_production i of
        Inl e \<Rightarrow> Inl e
      | Inr p \<Rightarrow>
          (case py_index consumption i of
             Inl e \<Rightarrow> Inl e
           | Inr c \<Rightarrow>
               (let self_consumption = min p c;
                    grid_import = max 0 (c - p);
                    grid_export = max 0 (p - c)
                in baseline_months pv_production consumption rest
                     (monthly_self_consumption @ [self_consumption],
                      monthly_grid_import @ [grid_import],
                      monthly_grid_export @ [grid_export]))))"

definition calculate_baseline_scenario ::
  "real list \<Rightarrow> real list \<Rightarrow> real \<Rightarrow> real \<Rightarrow> py_error + baseline_scenario" where
  "calculate_baseline_scenario pv_production consumption electricity_price feed_in_tariff =
     (let annual_pv_production = sum_list pv_production;
          annual_consumption = sum_list consumption
      in case baseline_months pv_production consumption [0..<12] ([], [], []) of
           Inl e \<Rightarrow> Inl e
         | Inr (monthly_self_consumption, monthly_grid_import, monthly_grid_export) \<Rightarrow>
             (let annual_self_consumption = sum_list monthly_self_consumption;
                  annual_grid_import = sum_list monthly_grid_import;
                  annual_grid_export = sum_list monthly_grid_export;
                  annual_electricity_cost = annual_grid_import * electricity_price;
                  annual_feed_in_revenue = annual_grid_export * feed_in_tariff;
                  annual_net_cost = annual_electricity_cost - annual_feed_in_revenue
              in case (if annual_pv_production > 0
                       then py_div annual_self_consumption annual_pv_production
                       else Inr 0) of
                   Inl e \<Rightarrow> Inl e
                 | Inr rate \<Rightarrow>
                     Inr \<lparr>baseline_annual_pv_production = annual_pv_production,
                          baseline_annual_consumption = annual_consumption,
                          baseline_annual_self_consumption = annual_self_consumption,
                          baseline_annual_grid_import = annual_grid_import,
                          baseline_annual_grid_export = annual_grid_export,
                          baseline_annual_electricity_cost = annual_electricity_cost,
                          baseline_annual_feed_in_revenue = annual_feed_in_revenue,
                          baseline_annual_net_cost = annual_net_cost,
                          baseline_self_consumption_rate = rate\<rparr>))"

subsection \<open>\<^verbatim>\<open>_calculate_bess_scenario\<close>\<close>

definition days_in_month_table :: "real list" where
  "days_in_month_table = [31, 28, 31, 30, 31, 30, 31, 31, 30, 31, 30, 31]"

text \<open>
  One day of a month with production above consumption (the \<^verbatim>\<open>if\<close> branch) and one day
  of the other months (the \<^verbatim>\<open>else\<close> branch). Each returns the daily self-consumption,
  import and export, \<^verbatim>\<open>battery_charge\<close>, and \<^verbatim>\<open>battery_discharge\<close> as the branch leaves
  it: the \<^verbatim>\<open>if\<close> branch does not assign \<^verbatim>\<open>battery_discharge\<close>, so the variable keeps the
  value of an earlier month, or is unbound (\<open>None\<close>) when no earlier month assigned it.
\<close>

definition surplus_day ::
  "real \<Rightarrow> real \<Rightarrow> real \<Rightarrow> BESSParameters \<Rightarrow> real option
   \<Rightarrow> py_error + real \<times> real \<times> real \<times> real \<times> real option" where
  "surplus_day daily_pv daily_consumption usable_capacity bess_params battery_discharge =
     (let excess = daily_pv - daily_consumption;
          battery_charge = min excess usable_capacity * efficiency bess_params
      in case py_div usable_capacity (efficiency bess_params) of
           Inl e \<Rightarrow> Inl e
         | Inr q \<Rightarrow>
             (let remaining_excess = max 0 (excess - q);
                  daily_self_consumption = daily_consumption + (excess - remaining_excess);
                  daily_grid_export = remaining_excess;
                  daily_grid_import = 0
              in Inr (daily_self_consumption, daily_grid_import, daily_grid_export,
                      battery_charge, battery_discharge)))"

definition deficit_day ::
  "real \<Rightarrow> real \<Rightarrow> real \<Rightarrow> real \<times> real \<times> real \<times> real \<times> real option" where
  "deficit_day daily_pv daily_consumption usable_capacity =
     (let deficit = daily_consumption - daily_pv;
          battery_discharge = min deficit usable_capacity;
          remaining_deficit = max 0 (deficit - battery_discharge);
          daily_self_consumption = daily_pv + battery_discharge;
          daily_grid_import = remaining_deficit;
          daily_grid_export = 0;
          battery_charge = 0
      in (daily_self_consumption, daily_grid_import, daily_grid_export,
          battery_charge, Some battery_discharge))"

text \<open>
  The loop \<^verbatim>\<open>for i in range(12)\<close>; its state is \<^verbatim>\<open>monthly_results\<close>,
  \<^verbatim>\<open>total_energy_throughput\<close> and the variable \<^verbatim>\<open>battery_discharge\<close>. Reading an unbound
  \<^verbatim>\<open>battery_discharge\<close> in \<^verbatim>\<open>monthly_throughput = (battery_charge + battery_discharge) * days_in_month\<close>
  raises UnboundLocalError.
\<close>

fun bess_months ::
  "real list \<Rightarrow> real list \<Rightarrow> real \<Rightarrow> BESSParameters \<Rightarrow> nat list
   \<Rightarrow> month_result list \<times> real \<times> real option
   \<Rightarrow> py_error + month_result list \<times> real \<times> real option" where
  "bess_months pv_production consumption usable_capacity bess_params [] state = Inr state"
| "bess_months pv_production consumption usable_capacity bess_params (i # rest)
     (monthly_results, total_energy_throughput, battery_discharge) =
     (case py_index pv_production i of
        Inl e \<Rightarrow> Inl e
      | Inr month_pv \<Rightarrow>
          (case py_index consumption i of
             Inl e \<Rightarrow> Inl e
           | Inr month_consumption \<Rightarrow>
               (let days_in_month = days_in_month_table ! i;
                    daily_pv = month_pv / days_in_month;
                    daily_consumption = month_consumption / days_in_month
                in case (if daily_pv > daily_consumption
                         then surplus_day daily_pv daily_consumption usable_capacity bess_params
                                battery_discharge
                         else Inr (deficit_day daily_pv daily_consumption usable_capacity)) of
                     Inl e \<Rightarrow> Inl e
                   | Inr (daily_self_consumption, daily_grid_import, daily_grid_export,
                          battery_charge, battery_discharge) \<Rightarrow>
                       (let month_self_consumption = daily_self_consumption * days_in_month;
                            month_grid_import = daily_grid_import * days_in_month;
                            month_grid_export = daily_grid_export * days_in_month
                        in case battery_discharge of
                             None \<Rightarrow> Inl UnboundLocalError
                           | Some discharge \<Rightarrow>
                               (let monthly_throughput =
                                      (battery_charge + discharge) * days_in_month
                                in bess_months pv_production consumption usable_capacity
                                     bess_params rest
                                     (monthly_results @
                                        [\<lparr>r_self_consumption = month_self_consumption,
                                          r_grid_import = month_grid_import,
                                          r_grid_export = month_grid_export,
                                          r_throughput = monthly_throughput\<rparr>],
                                      total_energy_throughput + monthly_throughput,
                                      battery_discharge))))))"

definition calculate_bess_scenario ::
  "real list \<Rightarrow> real list \<Rightarrow> real \<Rightarrow> BESSParameters \<Rightarrow> real \<Rightarrow> real \<Rightarrow> py_error + bess_scenario" where
  "calculate_bess_scenario pv_production consumption bess_capacity bess_params
       electricity_price feed_in_tariff =
     (let usable_capacity = bess_capacity * dod bess_params
      in case bess_months pv_production consumption usable_capacity bess_params [0..<12]
                ([], 0, None) of
           Inl e \<Rightarrow> Inl e
         | Inr (monthly_results, total_energy_throughput, battery_discharge) \<Rightarrow>
             (let annual_self_consumption = sum_list (map r_self_consumption monthly_results);
                  annual_grid_import = sum_list (map r_grid_import monthly_results);
                  annual_grid_export = sum_list (map r_grid_export monthly_results);
                  annual_electricity_cost = annual_grid_import * electricity_price;
                  annual_feed_in_revenue = annual_grid_export * feed_in_tariff;
                  annual_net_cost = annual_electricity_cost - annual_feed_in_revenue;
                  annual_savings = 0
              in Inr \<lparr>bess_annual_self_consumption = annual_self_consumption,
                      bess_annual_grid_import = annual_grid_import,
                      bess_annual_grid_export = annual_grid_export,
                      bess_annual_electricity_cost = annual_electricity_cost,
                      bess_annual_feed_in_revenue = annual_feed_in_revenue,
                      bess_annual_net_cost = annual_net_cost,
                      bess_annual_savings = annual_savings,
                      bess_daily_energy_throughput = total_energy_throughput / 365,
                      bess_monthly_results = monthly_results\<rparr>))"

subsection \<open>\<^verbatim>\<open>_calculate_npv_simple\<close>\<close>

text \<open>
  \<^verbatim>\<open>
  npv = -initial_investment
  for year in range(1, years + 1):
      npv += annual_cashflow / ((1 + discount_rate) ** year)
  return npv
  \<close>
\<close>

fun npv_simple_loop :: "real \<Rightarrow> real \<Rightarrow> nat list \<Rightarrow> real \<Rightarrow> py_error + real" where
  "npv_simple_loop annual_cashflow discount_rate [] npv = Inr npv"
| "npv_simple_loop annual_cashflow discount_rate (year # rest) npv =
     (case py_div annual_cashflow ((1 + discount_rate) ^ year) of
        Inl e \<Rightarrow> Inl e
      | Inr t \<Rightarrow> npv_simple_loop annual_cashflow discount_rate rest (npv + t))"

definition calculate_npv_simple :: "real \<Rightarrow> real \<Rightarrow> real \<Rightarrow> int \<Rightarrow> py_error + real" where
  "calculate_npv_simple annual_cashflow initial_investment discount_rate years =
     npv_simple_loop annual_cashflow discount_rate [1..<nat (years + 1)] (- initial_investment)"

subsection \<open>\<^verbatim>\<open>_optimize_bess_capacity\<close>\<close>

text \<open>
  \<^verbatim>\<open>
  while current_capacity <= max_capacity:
      bess_scenario = self._calculate_bess_scenario(pv_production,
          consumption_profile.monthly_kwh, current_capacity, bess_params,
          electricity_price, feed_in_tariff)
      annual_savings = bess_scenario['annual_savings']
      capex = current_capacity * bess_params.capex_per_kwh
      opex_annual = capex * bess_params.opex_annual_percent / 100
      npv = self._calculate_npv_simple(annual_savings - opex_annual, capex, 0.05, 20)
      if npv > best_npv:
          best_npv = npv
          optimal_capacity = current_capacity
      current_capacity += step
  return optimal_capacity
  \<close>
  The loop need not end (the step is 0 when the consumption sums to 0), so the result is
  an option: \<open>None\<close> when the call does not return.
\<close>

text \<open>
  The net present value that the loop body computes for \<^verbatim>\<open>current_capacity\<close> (the four
  statements from \<^verbatim>\<open>bess_scenario = ...\<close> to \<^verbatim>\<open>npv = ...\<close>).
\<close>

definition candidate_npv ::
  "real list \<Rightarrow> real list \<Rightarrow> real \<Rightarrow> BESSParameters \<Rightarrow> real \<Rightarrow> real \<Rightarrow> py_error + real" where
  "candidate_npv pv_production consumption current_capacity bess_params electricity_price
       feed_in_tariff =
     (case calculate_bess_scenario pv_production consumption current_capacity bess_params
             electricity_price feed_in_tariff of
        Inl e \<Rightarrow> Inl e
      | Inr bess_scenario \<Rightarrow>
          (let annual_savings = bess_annual_savings bess_scenario;
               capex = current_capacity * capex_per_kwh bess_params;
               opex_annual = capex * opex_annual_percent bess_params / 100
           in calculate_npv_simple (annual_savings - opex_annual) capex (5 / 100) 20))"

partial_function (option) optimize_loop ::
  "real list \<Rightarrow> ConsumptionProfile \<Rightarrow> BESSParameters \<Rightarrow> real \<Rightarrow> real \<Rightarrow> real \<Rightarrow> real
   \<Rightarrow> real \<Rightarrow> pyfloat \<Rightarrow> real \<Rightarrow> (py_error + real) option" where
  "optimize_loop pv_production consumption_profile bess_params electricity_price feed_in_tariff
       max_capacity step current_capacity best_npv optimal_capacity =
     (if current_capacity \<le> max_capacity then
        (case candidate_npv pv_production (monthly_kwh consumption_profile) current_capacity
                bess_params electricity_price feed_in_tariff of
           Inl e \<Rightarrow> Some (Inl e)
         | Inr npv \<Rightarrow>
             if pyfloat_less best_npv (Finite npv)
             then optimize_loop pv_production consumption_profile bess_params
                    electricity_price feed_in_tariff max_capacity step
                    (current_capacity + step) (Finite npv) current_capacity
             else optimize_loop pv_production consumption_profile bess_params
                    electricity_price feed_in_tariff max_capacity step
                    (current_capacity + step) best_npv optimal_capacity)
      else Some (Inr optimal_capacity))"

definition optimize_bess_capacity ::
  "real list \<Rightarrow> ConsumptionProfile \<Rightarrow> BESSParameters \<Rightarrow> real \<Rightarrow> real \<Rightarrow> (py_error + real) option" where
  "optimize_bess_capacity pv_production consumption_profile bess_params electricity_price
       feed_in_tariff =
     (let monthly_avg_consumption = sum_list (monthly_kwh consumption_profile) / 12;
          min_capacity = monthly_avg_consumption * (1 / 10);
          max_capacity = monthly_avg_consumption * 2;
          best_npv = NegInf;
          optimal_capacity = min_capacity;
          step = min_capacity * (1 / 10);
          current_capacity = min_capacity
      in optimize_loop pv_production consumption_profile bess_params electricity_price
           feed_in_tariff max_capacity step current_capacity best_npv optimal_capacity)"

text \<open>
  The net present value of one candidate in the specification's words: a 20-year NPV at
  5% whose annual cash flow is the candidate's grid-import cost minus its export revenue
  minus its opex, with capital cost capacity times capex per kWh.
\<close>

definition candidate_npv_spec ::
  "real list \<Rightarrow> real list \<Rightarrow> real \<Rightarrow> BESSParameters \<Rightarrow> real \<Rightarrow> real \<Rightarrow> py_error + real" where
  "candidate_npv_spec pv_production consumption capacity bess_params electricity_price
       feed_in_tariff =
     (case calculate_bess_scenario pv_production consumption capacity bess_params
             electricity_price feed_in_tariff of
        Inl e \<Rightarrow> Inl e
      | Inr sc \<Rightarrow>
          (let capex = capacity * capex_per_kwh bess_params;
               opex = capex * opex_annual_percent bess_params / 100
           in calculate_npv_simple
                (bess_annual_electricity_cost sc - bess_annual_feed_in_revenue sc - opex)
                capex (5 / 100) 20))"

subsection \<open>\<^verbatim>\<open>_calculate_technical_metrics\<close>\<close>

definition calculate_technical_metrics ::
  "real \<Rightarrow> real \<Rightarrow> BESSParameters \<Rightarrow> py_error + technical_metrics" where
  "calculate_technical_metrics bess_capacity daily_throughput bess_params =
     (let usable_capacity = bess_capacity * dod bess_params
      in case (if usable_capacity > 0
               then py_div daily_throughput (2 * usable_capacity)
               else Inr 0) of
           Inl e \<Rightarrow> Inl e
         | Inr daily_cycles \<Rightarrow>
             (let total_cycles_20_years = daily_cycles * 365 * 20;
                  degradation_total = min (8 / 10) (degradation_annual bess_params * 20);
                  capacity_retention_20_years = 1 - degradation_total
              in Inr \<lparr>metric_daily_cycles = daily_cycles,
                      metric_total_cycles_20_years = total_cycles_20_years,
                      metric_capacity_retention_20_years = capacity_retention_20_years\<rparr>))"

subsection \<open>\<^verbatim>\<open>calculate_optimal_bess\<close>\<close>

record BESSResults =
  optimal_capacity_kwh :: real
  optimal_power_kw :: real
  annual_self_consumption_increase :: real
  annual_grid_reduction :: real
  annual_grid_export_increase :: real
  daily_cycles :: real
  total_cycles_20_years :: real
  capacity_retention_20_years :: real
  average_soc :: real
  energy_throughput_annual :: real
  monthly_battery_usage :: "real list"
  self_consumption_rate_improvement :: real

text \<open>
  The public method calls its helpers through \<^verbatim>\<open>self\<close>, so which helper runs, and whether
  the call binds, is decided when the call is made. The values that flow between these
  calls are the arguments and the returned dicts.
\<close>

datatype pyval =
    Num real
  | Nums "real list"
  | Profile ConsumptionProfile
  | Params BESSParameters
  | BaselineDict baseline_scenario
  | ScenarioDict bess_scenario
  | MetricsDict technical_metrics
  | MonthDicts "month_result list"

text \<open>
  The helper methods that the class \<^verbatim>\<open>BESSCalculator\<close> defines, each with the number of
  its parameters after \<^verbatim>\<open>self\<close>. None of these parameters has a default value, so a call
  binds only when it passes exactly that many arguments.
\<close>

definition BESSCalculator_methods :: "(string \<times> nat) list" where
  "BESSCalculator_methods =
     [(''_calculate_baseline_scenario'', 4),
      (''_optimize_bess_capacity'', 5),
      (''_calculate_bess_scenario'', 6),
      (''_calculate_economics'', 5),
      (''_calculate_technical_metrics'', 3),
      (''_calculate_npv_simple'', 4),
      (''_calculate_irr_approximation'', 3)]"

text \<open>
  The bodies of the three helpers that \<open>calculate_optimal_bess\<close> names and the class
  defines, applied to bound arguments. (The other four helpers are not called from
  \<open>calculate_optimal_bess\<close>.)
\<close>

definition run_method :: "string \<Rightarrow> pyval list \<Rightarrow> py_error + pyval" where
  "run_method name args =
     (if name = ''_calculate_baseline_scenario'' then
        (case args of
           [Nums pv_production, Nums consumption, Num electricity_price, Num feed_in_tariff] \<Rightarrow>
             map_sum id BaselineDict
               (calculate_baseline_scenario pv_production consumption electricity_price
                  feed_in_tariff)
         | _ \<Rightarrow> Inl TypeError)
      else if name = ''_calculate_bess_scenario'' then
        (case args of
           [Nums pv_production, Nums consumption, Num bess_capacity, Params bess_params,
            Num electricity_price, Num feed_in_tariff] \<Rightarrow>
             map_sum id ScenarioDict
               (calculate_bess_scenario pv_production consumption bess_capacity bess_params
                  electricity_price feed_in_tariff)
         | _ \<Rightarrow> Inl TypeError)
      else if name = ''_calculate_technical_metrics'' then
        (case args of
           [Num bess_capacity, Num daily_throughput, Params bess_params] \<Rightarrow>
             map_sum id MetricsDict
               (calculate_technical_metrics bess_capacity daily_throughput bess_params)
         | _ \<Rightarrow> Inl TypeError)
      else Inl AttributeError)"

text \<open>
  \<^verbatim>\<open>self.name(args)\<close>: the attribute lookup raises AttributeError for a name the class does
  not define; binding the arguments raises TypeError when their number is not the number
  of parameters; then the body runs.
\<close>

definition call_method :: "string \<Rightarrow> pyval list \<Rightarrow> py_error + pyval" where
  "call_method name args =
     (case map_of BESSCalculator_methods name of
        None \<Rightarrow> Inl AttributeError
      | Some n \<Rightarrow> if length args \<noteq> n then Inl TypeError else run_method name args)"

text \<open>\<^verbatim>\<open>d['key']\<close> on a returned dict: KeyError for a key the dict does not have.\<close>

definition dict_items :: "pyval \<Rightarrow> (string \<times> pyval) list option" where
  "dict_items v =
     (case v of
        BaselineDict b \<Rightarrow>
          Some [(''annual_pv_production'', Num (baseline_annual_pv_production b)),
                (''annual_consumption'', Num (baseline_annual_consumption b)),
                (''annual_self_consumption'', Num (baseline_annual_self_consumption b)),
                (''annual_grid_import'', Num (baseline_annual_grid_import b)),
                (''annual_grid_export'', Num (baseline_annual_grid_export b)),
                (''annual_electricity_cost'', Num (baseline_annual_electricity_cost b)),
                (''annual_feed_in_revenue'', Num (baseline_annual_feed_in_revenue b)),
                (''annual_net_cost'', Num (baseline_annual_net_cost b)),
                (''self_consumption_rate'', Num (baseline_self_consumption_rate b))]
      | ScenarioDict sc \<Rightarrow>
          Some [(''annual_self_consumption'', Num (bess_annual_self_consumption sc)),
                (''annual_grid_import'', Num (bess_annual_grid_import sc)),
                (''annual_grid_export'', Num (bess_annual_grid_export sc)),
                (''annual_electricity_cost'', Num (bess_annual_electricity_cost sc)),
                (''annual_feed_in_revenue'', Num (bess_annual_feed_in_revenue sc)),
                (''annual_net_cost'', Num (bess_annual_net_cost sc)),
                (''annual_savings'', Num (bess_annual_savings sc)),
                (''daily_energy_throughput'', Num (bess_daily_energy_throughput sc)),
                (''monthly_results'', MonthDicts (bess_monthly_results sc))]
      | MetricsDict m \<Rightarrow>
          Some [(''daily_cycles'', Num (metric_daily_cycles m)),
                (''total_cycles_20_years'', Num (metric_total_cycles_20_years m)),
                (''capacity_retention_20_years'', Num (metric_capacity_retention_20_years m))]
      | _ \<Rightarrow> None)"

definition subscript :: "pyval \<Rightarrow> string \<Rightarrow> py_error + pyval" where
  "subscript v key =
     (case dict_items v of
        None \<Rightarrow> Inl TypeError
      | Some items \<Rightarrow> (case map_of items key of None \<Rightarrow> Inl KeyError | Some x \<Rightarrow> Inr x))"

definition as_num :: "pyval \<Rightarrow> py_error + real" where
  "as_num v = (case v of Num x \<Rightarrow> Inr x | _ \<Rightarrow> Inl TypeError)"

definition as_nums :: "pyval \<Rightarrow> py_error + real list" where
  "as_nums v = (case v of Nums xs \<Rightarrow> Inr xs | _ \<Rightarrow> Inl TypeError)"

text \<open>\<^verbatim>\<open>a['ka'] - b['kb']\<close>, the left operand first.\<close>

definition subscript_diff :: "pyval \<Rightarrow> string \<Rightarrow> pyval \<Rightarrow> string \<Rightarrow> py_error + real" where
  "subscript_diff a ka b kb =
     bind_err (bind_err (subscript a ka) as_num) (\<lambda>x.
     bind_err (bind_err (subscript b kb) as_num) (\<lambda>y. Inr (x - y)))"

text \<open>
  The body of \<open>calculate_optimal_bess\<close>, statement by statement; the \<^verbatim>\<open>except\<close> clause
  logs the exception and raises it again, so the error of a step is the error of the call.
  The keyword arguments of \<^verbatim>\<open>BESSResults(...)\<close> are evaluated in the order written.
\<close>

definition calculate_optimal_bess ::
  "real list \<Rightarrow> ConsumptionProfile \<Rightarrow> BESSParameters \<Rightarrow> py_error + BESSResults" where
  "calculate_optimal_bess pv_production_monthly consumption_profile bess_params =
     bind_err (call_method ''_calculate_baseline_scenario''
                 [Nums pv_production_monthly, Nums (monthly_kwh consumption_profile)])
       (\<lambda>baseline.
     bind_err (call_method ''_optimize_bess_capacity_technical''
                 [Nums pv_production_monthly, Profile consumption_profile, Params bess_params])
       (\<lambda>optimal_capacity.
     bind_err (call_method ''_calculate_bess_scenario''
                 [Nums pv_production_monthly, Nums (monthly_kwh consumption_profile),
                  optimal_capacity, Params bess_params])
       (\<lambda>bess_scenario.
     bind_err (subscript bess_scenario ''daily_energy_throughput'')
       (\<lambda>throughput.
     bind_err (call_method ''_calculate_technical_metrics''
                 [optimal_capacity, throughput, Params bess_params])
       (\<lambda>technical_results.
     bind_err (call_method ''_calculate_self_consumption_improvement''
                 [baseline, bess_scenario])
       (\<lambda>self_consumption_improvement.
     bind_err (as_num optimal_capacity)
       (\<lambda>capacity.
     bind_err (subscript_diff bess_scenario ''annual_self_consumption''
                 baseline ''annual_self_consumption'')
       (\<lambda>self_consumption_increase.
     bind_err (subscript_diff baseline ''annual_grid_import'' bess_scenario ''annual_grid_import'')
       (\<lambda>grid_reduction.
     bind_err (subscript_diff bess_scenario ''annual_grid_export'' baseline ''annual_grid_export'')
       (\<lambda>grid_export_increase.
     bind_err (bind_err (subscript technical_results ''daily_cycles'') as_num)
       (\<lambda>cycles.
     bind_err (bind_err (subscript technical_results ''total_cycles_20_years'') as_num)
       (\<lambda>total_cycles.
     bind_err (bind_err (subscript technical_results ''capacity_retention_20_years'') as_num)
       (\<lambda>retention.
     bind_err (bind_err (subscript technical_results ''average_soc'') as_num)
       (\<lambda>soc.
     bind_err (bind_err (subscript technical_results ''energy_throughput_annual'') as_num)
       (\<lambda>throughput_annual.
     bind_err (bind_err (subscript bess_scenario ''monthly_battery_usage'') as_nums)
       (\<lambda>battery_usage.
     bind_err (as_num self_consumption_improvement)
       (\<lambda>improvement.
       Inr \<lparr>optimal_capacity_kwh = capacity,
            optimal_power_kw = capacity * c_rate bess_params,
            annual_self_consumption_increase = self_consumption_increase,
            annual_grid_reduction = grid_reduction,
            annual_grid_export_increase = grid_export_increase,
            daily_cycles = cycles,
            total_cycles_20_years = total_cycles,
            capacity_retention_20_years = retention,
            average_soc = soc,
            energy_throughput_annual = throughput_annual,
            monthly_battery_usage = battery_usage,
            self_consumption_rate_improvement = improvement\<rparr>)))))))))))))))))"

section \<open>The economic evaluation engine (\<^verbatim>\<open>economic_calculator.py\<close>)\<close>

subsection \<open>Data\<close>

record EconomicParameters =
  electricity_price_f1 :: real
  electricity_price_f2 :: real
  electricity_price_f3 :: real
  feed_in_tariff :: real
  pv_capex_per_kwp :: real
  pv_opex_annual_percent :: real
  bess_capex_per_kwh :: real
  bess_opex_annual_percent :: real
  wacc :: real
  analysis_years :: int
  electricity_price_escalation :: real
  opex_escalation :: real
  tax_deduction_percent :: real
  green_certificates :: real

text \<open>The defaults of the dataclass, used when \<^verbatim>\<open>economic_params is None\<close>.\<close>

definition default_EconomicParameters :: EconomicParameters where
  "default_EconomicParameters =
     \<lparr>electricity_price_f1 = 28 / 100, electricity_price_f2 = 25 / 100,
      electricity_price_f3 = 22 / 100, feed_in_tariff = 5 / 100,
      pv_capex_per_kwp = 1200, pv_opex_annual_percent = 15 / 1000,
      bess_capex_per_kwh = 500, bess_opex_annual_percent = 1 / 100,
      wacc = 5 / 100, analysis_years = 20,
      electricity_price_escalation = 2 / 100, opex_escalation = 2 / 100,
      tax_deduction_percent = 0, green_certificates = 0\<rparr>"

text \<open>
  The dict that \<^verbatim>\<open>_calculate_pv_only_scenario\<close> and \<^verbatim>\<open>_calculate_pv_bess_scenario\<close>
  return has the same ten keys in both; the dict of the incremental results has three.
  A key \<^verbatim>\<open>'k'\<close> of the scenario dict is the field \<open>scenario_k\<close>, a key of the
  incremental dict the field \<open>incr_k\<close>.
\<close>

record pv_scenario =
  scenario_npv :: real
  scenario_irr :: real
  scenario_payback :: pyfloat
  scenario_capex :: real
  scenario_annual_opex :: real
  scenario_annual_savings :: real
  scenario_cash_flows :: "real list"
  scenario_annual_self_consumption :: real
  scenario_annual_grid_export :: real
  scenario_annual_grid_import :: real

record incremental_results =
  incr_npv :: real
  incr_irr :: real
  incr_payback :: pyfloat

record EconomicResults =
  pv_only_npv :: real
  pv_only_irr :: real
  pv_only_payback :: pyfloat
  pv_only_capex :: real
  pv_only_annual_savings :: real
  pv_bess_npv :: real
  pv_bess_irr :: real
  pv_bess_payback :: pyfloat
  pv_bess_capex :: real
  pv_bess_annual_savings :: real
  bess_incremental_npv :: real
  bess_incremental_irr :: real
  bess_incremental_payback :: pyfloat
  annual_cash_flows_pv :: "real list"
  annual_cash_flows_pv_bess :: "real list"
  sensitivity_analysis :: "(string \<times> (string \<times> real) list) list"
  total_investment :: real
  total_annual_production :: real
  total_annual_savings :: real
  lcoe :: real

subsection \<open>\<^verbatim>\<open>_calculate_pv_only_scenario\<close>\<close>

text \<open>
  The loop \<^verbatim>\<open>for i in range(12)\<close> reads both monthly lists by index and appends to
  three lists (self-consumption, export, import); a list shorter than 12 raises IndexError
  at the first missing month.
\<close>

fun pv_only_months ::
  "real list \<Rightarrow> real list \<Rightarrow> nat list \<Rightarrow> real list \<times> real list \<times> real list
   \<Rightarrow> py_error + real list \<times> real list \<times> real list" where
  "pv_only_months pv_production_monthly consumption_monthly [] acc = Inr acc"
| "pv_only_months pv_production_monthly consumption_monthly (i # rest)
     (monthly_self_consumption, monthly_grid_export, monthly_grid_import) =
     (case py_index pv_production_monthly i of
        Inl e \<Rightarrow> Inl e
      | Inr production \<Rightarrow>
          (case py_index consumption_monthly i of
             Inl e \<Rightarrow> Inl e
           | Inr consumption \<Rightarrow>
               (let self_consumption = min production consumption;
                    grid_export = max 0 (production - consumption);
                    grid_import = max 0 (consumption - production)
                in pv_only_months pv_production_monthly consumption_monthly rest
                     (monthly_self_consumption @ [self_consumption],
                      monthly_grid_export @ [grid_export],
                      monthly_grid_import @ [grid_import]))))"

definition avg_electricity_price :: "EconomicParameters \<Rightarrow> real" where
  "avg_electricity_price economic_params =
     electricity_price_f1 economic_params * (33 / 100)
     + electricity_price_f2 economic_params * (33 / 100)
     + electricity_price_f3 economic_params * (34 / 100)"

text \<open>The cash-flow loop over \<^verbatim>\<open>range(analysis_years)\<close>, shared by both scenarios.\<close>

definition escalated_cash_flows :: "real \<Rightarrow> real \<Rightarrow> EconomicParameters \<Rightarrow> real list" where
  "escalated_cash_flows savings opex economic_params =
     map (\<lambda>year. savings * (1 + electricity_price_escalation economic_params) ^ year
                  - opex * (1 + opex_escalation economic_params) ^ year)
         (py_range (analysis_years economic_params))"

definition calculate_pv_only_scenario ::
  "real \<Rightarrow> real \<Rightarrow> real list \<Rightarrow> real list \<Rightarrow> EconomicParameters \<Rightarrow> py_error + pv_scenario" where
  "calculate_pv_only_scenario pv_power_kwp pv_production_annual pv_production_monthly
       consumption_monthly economic_params =
     (let pv_capex = pv_power_kwp * pv_capex_per_kwp economic_params;
          pv_opex_annual = pv_capex * pv_opex_annual_percent economic_params
      in case pv_only_months pv_production_monthly consumption_monthly [0..<12] ([], [], []) of
           Inl e \<Rightarrow> Inl e
         | Inr (monthly_self_consumption, monthly_grid_export, monthly_grid_import) \<Rightarrow>
             (let annual_self_consumption = sum_list monthly_self_consumption;
                  annual_grid_export = sum_list monthly_grid_export;
                  annual_grid_import = sum_list monthly_grid_import;
                  annual_savings =
                    annual_self_consumption * avg_electricity_price economic_params
                    + annual_grid_export * feed_in_tariff economic_params;
                  cash_flows = escalated_cash_flows annual_savings pv_opex_annual economic_params
              in case calculate_npv ((- pv_capex) # cash_flows) (wacc economic_params) of
                   Inl e \<Rightarrow> Inl e
                 | Inr npv \<Rightarrow>
                     (let irr = calculate_irr ((- pv_capex) # cash_flows)
                      in case calculate_payback pv_capex cash_flows of
                           Inl e \<Rightarrow> Inl e
                         | Inr payback \<Rightarrow>
                             Inr \<lparr>scenario_npv = npv, scenario_irr = irr,
                                  scenario_payback = payback, scenario_capex = pv_capex,
                                  scenario_annual_opex = pv_opex_annual,
                                  scenario_annual_savings = annual_savings,
                                  scenario_cash_flows = cash_flows,
                                  scenario_annual_self_consumption = annual_self_consumption,
                                  scenario_annual_grid_export = annual_grid_export,
                                  scenario_annual_grid_import = annual_grid_import\<rparr>)))"

subsection \<open>\<^verbatim>\<open>_calculate_pv_bess_scenario\<close>\<close>

definition calculate_pv_bess_scenario ::
  "real \<Rightarrow> real \<Rightarrow> real list \<Rightarrow> real list \<Rightarrow> real \<Rightarrow> real \<Rightarrow> EconomicParameters
   \<Rightarrow> py_error + pv_scenario" where
  "calculate_pv_bess_scenario pv_power_kwp pv_production_annual pv_production_monthly
       consumption_monthly bess_capacity_kwh bess_self_consumption_increase economic_params =
     (let pv_capex = pv_power_kwp * pv_capex_per_kwp economic_params;
          bess_capex = bess_capacity_kwh * bess_capex_per_kwh economic_params;
          total_capex = pv_capex + bess_capex;
          pv_opex_annual = pv_capex * pv_opex_annual_percent economic_params;
          bess_opex_annual = bess_capex * bess_opex_annual_percent economic_params;
          total_opex_annual = pv_opex_annual + bess_opex_annual;
          annual_self_consumption_base = min pv_production_annual (sum_list consumption_monthly);
          annual_self_consumption_with_bess =
            annual_self_consumption_base + bess_self_consumption_increase;
          annual_grid_export = max 0 (pv_production_annual - annual_self_consumption_with_bess);
          annual_grid_import =
            max 0 (sum_list consumption_monthly - annual_self_consumption_with_bess);
          annual_savings =
            annual_self_consumption_with_bess * avg_electricity_price economic_params
            + annual_grid_export * feed_in_tariff economic_params;
          cash_flows = escalated_cash_flows annual_savings total_opex_annual economic_params
      in case calculate_npv ((- total_capex) # cash_flows) (wacc economic_params) of
           Inl e \<Rightarrow> Inl e
         | Inr npv \<Rightarrow>
             (let irr = calculate_irr ((- total_capex) # cash_flows)
              in case calculate_payback total_capex cash_flows of
                   Inl e \<Rightarrow> Inl e
                 | Inr payback \<Rightarrow>
                     Inr \<lparr>scenario_npv = npv, scenario_irr = irr,
                          scenario_payback = payback, scenario_capex = total_capex,
                          scenario_annual_opex = total_opex_annual,
                          scenario_annual_savings = annual_savings,
                          scenario_cash_flows = cash_flows,
                          scenario_annual_self_consumption = annual_self_consumption_with_bess,
                          scenario_annual_grid_export = annual_grid_export,
                          scenario_annual_grid_import = annual_grid_import\<rparr>))"

subsection \<open>\<^verbatim>\<open>_calculate_incremental_bess_economics\<close>\<close>

text \<open>
  \<^verbatim>\<open>[pv_bess['cash_flows'][i] - pv_only['cash_flows'][i] for i in range(len(pv_only['cash_flows']))]\<close>
\<close>

fun incremental_cash_flows :: "real list \<Rightarrow> real list \<Rightarrow> nat list \<Rightarrow> py_error + real list" where
  "incremental_cash_flows bess_flows only_flows [] = Inr []"
| "incremental_cash_flows bess_flows only_flows (i # rest) =
     (case py_index bess_flows i of
        Inl e \<Rightarrow> Inl e
      | Inr a \<Rightarrow>
          (case py_index only_flows i of
             Inl e \<Rightarrow> Inl e
           | Inr b \<Rightarrow>
               (case incremental_cash_flows bess_flows only_flows rest of
                  Inl e \<Rightarrow> Inl e
                | Inr flows \<Rightarrow> Inr ((a - b) # flows))))"

definition calculate_incremental_bess_economics ::
  "pv_scenario \<Rightarrow> pv_scenario \<Rightarrow> real \<Rightarrow> EconomicParameters \<Rightarrow> py_error + incremental_results" where
  "calculate_incremental_bess_economics pv_only_results pv_bess_results bess_capacity_kwh
       economic_params =
     (let bess_capex = bess_capacity_kwh * bess_capex_per_kwh economic_params
      in case incremental_cash_flows (scenario_cash_flows pv_bess_results)
                (scenario_cash_flows pv_only_results)
                [0..<length (scenario_cash_flows pv_only_results)] of
           Inl e \<Rightarrow> Inl e
         | Inr flows \<Rightarrow>
             (case calculate_npv ((- bess_capex) # flows) (wacc economic_params) of
                Inl e \<Rightarrow> Inl e
              | Inr incremental_npv \<Rightarrow>
                  (let incremental_irr = calculate_irr ((- bess_capex) # flows)
                   in case calculate_payback bess_capex flows of
                        Inl e \<Rightarrow> Inl e
                      | Inr incremental_payback \<Rightarrow>
                          Inr \<lparr>incr_npv = incremental_npv, incr_irr = incremental_irr,
                               incr_payback = incremental_payback\<rparr>)))"

subsection \<open>\<^verbatim>\<open>_calculate_sensitivity_analysis\<close>\<close>

text \<open>
  The four attributes that the sweep varies, with \<^verbatim>\<open>getattr\<close> and \<^verbatim>\<open>setattr\<close> on a copy
  of the parameters, and the label \<^verbatim>\<open>f"{variation:+d}%"\<close> of a variation.
\<close>

datatype sensitivity_attr =
  Attr_electricity_price_f2 | Attr_pv_capex_per_kwp | Attr_bess_capex_per_kwh | Attr_wacc

definition sensitivity_params :: "(string \<times> sensitivity_attr) list" where
  "sensitivity_params =
     [(''electricity_price'', Attr_electricity_price_f2),
      (''pv_capex'', Attr_pv_capex_per_kwp),
      (''bess_capex'', Attr_bess_capex_per_kwh),
      (''wacc'', Attr_wacc)]"

fun getattr_param :: "EconomicParameters \<Rightarrow> sensitivity_attr \<Rightarrow> real" where
  "getattr_param p Attr_electricity_price_f2 = electricity_price_f2 p"
| "getattr_param p Attr_pv_capex_per_kwp = pv_capex_per_kwp p"
| "getattr_param p Attr_bess_capex_per_kwh = bess_capex_per_kwh p"
| "getattr_param p Attr_wacc = wacc p"

fun setattr_param :: "EconomicParameters \<Rightarrow> sensitivity_attr \<Rightarrow> real \<Rightarrow> EconomicParameters" where
  "setattr_param p Attr_electricity_price_f2 v = p\<lparr>electricity_price_f2 := v\<rparr>"
| "setattr_param p Attr_pv_capex_per_kwp v = p\<lparr>pv_capex_per_kwp := v\<rparr>"
| "setattr_param p Attr_bess_capex_per_kwh v = p\<lparr>bess_capex_per_kwh := v\<rparr>"
| "setattr_param p Attr_wacc v = p\<lparr>wacc := v\<rparr>"

definition variations :: "int list" where
  "variations = [-20, -10, 0, 10, 20]"

fun decimal_digits :: "nat \<Rightarrow> string" where
  "decimal_digits n =
     (if n < 10 then [''0123456789'' ! n]
      else decimal_digits (n div 10) @ [''0123456789'' ! (n mod 10)])"

definition variation_label :: "int \<Rightarrow> string" where
  "variation_label variation =
     (if variation < 0 then ''-'' else ''+'') @ decimal_digits (nat \<bar>variation\<bar>) @ ''%''"

definition sensitivity_npv ::
  "real \<Rightarrow> real \<Rightarrow> real \<Rightarrow> EconomicParameters \<Rightarrow> py_error + real" where
  "sensitivity_npv pv_power_kwp pv_production_annual bess_capacity_kwh modified_params =
     (let pv_capex = pv_power_kwp * pv_capex_per_kwp modified_params;
          bess_capex = bess_capacity_kwh * bess_capex_per_kwh modified_params;
          total_capex = pv_capex + bess_capex;
          annual_savings = pv_production_annual * electricity_price_f2 modified_params * (7 / 10);
          annual_opex = total_capex * (15 / 1000);
          cash_flows = replicate (nat (analysis_years modified_params))
                         (annual_savings - annual_opex)
      in calculate_npv ((- total_capex) # cash_flows) (wacc modified_params))"

text \<open>
  One cell of the table: the body of the inner loop, whose \<^verbatim>\<open>try\<close> turns any exception
  into the value 0.
\<close>

definition sensitivity_entry ::
  "real \<Rightarrow> real \<Rightarrow> real \<Rightarrow> EconomicParameters \<Rightarrow> sensitivity_attr \<Rightarrow> int \<Rightarrow> string \<times> real" where
  "sensitivity_entry pv_power_kwp pv_production_annual bess_capacity_kwh base_params
       param_attr variation =
     (let base_value = getattr_param base_params param_attr;
          modified_params =
            setattr_param base_params param_attr (base_value * (1 + real_of_int variation / 100))
      in (variation_label variation,
          (case sensitivity_npv pv_power_kwp pv_production_annual bess_capacity_kwh
                  modified_params of
             Inl e \<Rightarrow> 0
           | Inr v \<Rightarrow> v)))"

definition calculate_sensitivity_analysis ::
  "real \<Rightarrow> real \<Rightarrow> real \<Rightarrow> real \<Rightarrow> EconomicParameters \<Rightarrow> (string \<times> (string \<times> real) list) list" where
  "calculate_sensitivity_analysis pv_power_kwp pv_production_annual consumption_annual
       bess_capacity_kwh economic_params =
     map (\<lambda>(param_name, param_attr).
            (param_name,
             map (sensitivity_entry pv_power_kwp pv_production_annual bess_capacity_kwh
                    economic_params param_attr) variations))
         sensitivity_params"

subsection \<open>\<^verbatim>\<open>_calculate_lcoe\<close>\<close>

text \<open>
  Two list comprehensions with a division each, summed; the production sum is evaluated
  first. \<open>discounted\<close> maps \<^verbatim>\<open>x / (1 + wacc) ** year\<close> over (year, value) pairs and stops
  at the first failing division.
\<close>

fun discounted :: "real \<Rightarrow> (nat \<times> real) list \<Rightarrow> py_error + real list" where
  "discounted rate [] = Inr []"
| "discounted rate ((year, x) # rest) =
     (case py_div x ((1 + rate) ^ year) of
        Inl e \<Rightarrow> Inl e
      | Inr t \<Rightarrow> (case discounted rate rest of Inl e \<Rightarrow> Inl e | Inr ts \<Rightarrow> Inr (t # ts)))"

definition calculate_lcoe :: "real \<Rightarrow> real \<Rightarrow> real \<Rightarrow> EconomicParameters \<Rightarrow> py_error + real" where
  "calculate_lcoe capex annual_opex annual_production economic_params =
     (let cost_cash_flows =
            capex # map (\<lambda>year. annual_opex * (1 + opex_escalation economic_params) ^ year)
                        (py_range (analysis_years economic_params))
      in case discounted (wacc economic_params)
                (map (\<lambda>year. (year, annual_production))
                     [1..<nat (analysis_years economic_params + 1)]) of
           Inl e \<Rightarrow> Inl e
         | Inr production_terms \<Rightarrow>
             (let discounted_production = sum_list production_terms
              in case discounted (wacc economic_params)
                        (zip [0..<length cost_cash_flows] cost_cash_flows) of
                   Inl e \<Rightarrow> Inl e
                 | Inr cost_terms \<Rightarrow>
                     (let discounted_costs = sum_list cost_terms
                      in if discounted_production > 0
                         then py_div discounted_costs discounted_production
                         else Inr 0)))"

subsection \<open>\<^verbatim>\<open>calculate_complete_economic_analysis\<close>\<close>

text \<open>
  The optional arguments are \<open>real option\<close>. Python tests them by truth value:
  \<^verbatim>\<open>None\<close> and a zero are false, every other number is true.
\<close>

text \<open>\<^verbatim>\<open>if economic_params is None: economic_params = EconomicParameters()\<close>\<close>

definition params_or_default :: "EconomicParameters option \<Rightarrow> EconomicParameters" where
  "params_or_default economic_params =
     (case economic_params of None \<Rightarrow> default_EconomicParameters | Some p \<Rightarrow> p)"

fun truthy :: "real option \<Rightarrow> bool" where
  "truthy None = False"
| "truthy (Some x) = (x \<noteq> 0)"

text \<open>\<^verbatim>\<open>x or 0\<close>\<close>

fun or_zero :: "real option \<Rightarrow> real" where
  "or_zero None = 0"
| "or_zero (Some x) = (if x \<noteq> 0 then x else 0)"

text \<open>
  The \<^verbatim>\<open>try\<close> block logs and re-raises, so an error of a step is the error of the call.
  In the \<^verbatim>\<open>else\<close> branch \<^verbatim>\<open>pv_only_results.copy()\<close> is a dict with the same entries.
\<close>

definition calculate_complete_economic_analysis ::
  "real \<Rightarrow> real \<Rightarrow> real list \<Rightarrow> real \<Rightarrow> real list \<Rightarrow> real option \<Rightarrow> real option \<Rightarrow> real option
   \<Rightarrow> EconomicParameters option \<Rightarrow> py_error + EconomicResults" where
  "calculate_complete_economic_analysis pv_power_kwp pv_production_annual pv_production_monthly
       consumption_annual consumption_monthly bess_capacity_kwh bess_annual_throughput
       bess_self_consumption_increase economic_params_arg =
     (let economic_params = params_or_default economic_params_arg
      in case calculate_pv_only_scenario pv_power_kwp pv_production_annual pv_production_monthly
                consumption_monthly economic_params of
           Inl e \<Rightarrow> Inl e
         | Inr pv_only_results \<Rightarrow>
             (case (if truthy bess_capacity_kwh \<and> truthy bess_self_consumption_increase then
                      (case calculate_pv_bess_scenario pv_power_kwp pv_production_annual
                              pv_production_monthly consumption_monthly (the bess_capacity_kwh)
                              (the bess_self_consumption_increase) economic_params of
                         Inl e \<Rightarrow> Inl e
                       | Inr pv_bess_results \<Rightarrow>
                           (case calculate_incremental_bess_economics pv_only_results
                                   pv_bess_results (the bess_capacity_kwh) economic_params of
                              Inl e \<Rightarrow> Inl e
                            | Inr incremental_results \<Rightarrow>
                                Inr (pv_bess_results, incremental_results)))
                    else
                      Inr (pv_only_results,
                           \<lparr>incr_npv = 0, incr_irr = 0, incr_payback = PosInf\<rparr>)) of
                Inl e \<Rightarrow> Inl e
              | Inr (pv_bess_results, incremental_results) \<Rightarrow>
                  (let sensitivity_results =
                         calculate_sensitivity_analysis pv_power_kwp pv_production_annual
                           consumption_annual (or_zero bess_capacity_kwh) economic_params
                   in case calculate_lcoe (scenario_capex pv_only_results)
                             (scenario_annual_opex pv_only_results) pv_production_annual
                             economic_params of
                        Inl e \<Rightarrow> Inl e
                      | Inr lcoe_value \<Rightarrow>
                          Inr \<lparr>pv_only_npv = scenario_npv pv_only_results,
                               pv_only_irr = scenario_irr pv_only_results,
                               pv_only_payback = scenario_payback pv_only_results,
                               pv_only_capex = scenario_capex pv_only_results,
                               pv_only_annual_savings = scenario_annual_savings pv_only_results,
                               pv_bess_npv = scenario_npv pv_bess_results,
                               pv_bess_irr = scenario_irr pv_bess_results,
                               pv_bess_payback = scenario_payback pv_bess_results,
                               pv_bess_capex = scenario_capex pv_bess_results,
                               pv_bess_annual_savings = scenario_annual_savings pv_bess_results,
                               bess_incremental_npv = incr_npv incremental_results,
                               bess_incremental_irr = incr_irr incremental_results,
                               bess_incremental_payback = incr_payback incremental_results,
                               annual_cash_flows_pv = scenario_cash_flows pv_only_results,
                               annual_cash_flows_pv_bess = scenario_cash_flows pv_bess_results,
                               sensitivity_analysis = sensitivity_results,
                               total_investment = scenario_capex pv_bess_results,
                               total_annual_production = pv_production_annual,
                               total_annual_savings = scenario_annual_savings pv_bess_results,
                               lcoe = lcoe_value\<rparr>)))"

section \<open>Properties of the BESS sizing engine\<close>

subsection \<open>The public method never returns\<close>

lemma call_baseline_two_args:
  "call_method ''_calculate_baseline_scenario'' [a, b] = Inl TypeError"
  by (simp add: call_method_def BESSCalculator_methods_def)

text \<open>
  Claim C1. For every production list, consumption profile and battery parameters,
  \<open>calculate_optimal_bess\<close> raises and returns no \<open>BESSResults\<close>: its first statement calls
  \<^verbatim>\<open>_calculate_baseline_scenario\<close> with two arguments, and the method has four parameters
  without default, so binding the arguments raises TypeError. The two helpers
  \<^verbatim>\<open>_optimize_bess_capacity_technical\<close> and \<^verbatim>\<open>_calculate_self_consumption_improvement\<close>
  that it also calls are not defined on the class: calling them raises AttributeError
  whatever the arguments.
\<close>

theorem calculate_optimal_bess_always_raises:
  "calculate_optimal_bess pv_production_monthly consumption_profile bess_params = Inl TypeError
   \<and> map_of BESSCalculator_methods ''_calculate_baseline_scenario'' = Some 4
   \<and> call_method ''_optimize_bess_capacity_technical'' args = Inl AttributeError
   \<and> call_method ''_calculate_self_consumption_improvement'' args' = Inl AttributeError"
  by (simp add: calculate_optimal_bess_def call_baseline_two_args bind_err_def)
     (simp add: call_method_def BESSCalculator_methods_def)

subsection \<open>The baseline scenario\<close>

lemma baseline_months_eq:
  "baseline_months pv cons is (a, b, c) =
     (if \<forall>i \<in> set is. i < length pv \<and> i < length cons
      then Inr (a @ map (\<lambda>i. min (pv ! i) (cons ! i)) is,
                b @ map (\<lambda>i. max 0 (cons ! i - pv ! i)) is,
                c @ map (\<lambda>i. max 0 (pv ! i - cons ! i)) is)
      else Inl IndexError)"
  by (induction "is" arbitrary: a b c) (auto simp: py_index_def Let_def)

lemma baseline_months_short:
  "length pv < 12 \<or> length cons < 12 \<Longrightarrow>
   baseline_months pv cons [0..<12] ([], [], []) = Inl IndexError"
  unfolding baseline_months_eq by (auto simp del: upt_Suc)

lemma baseline_months_ok:
  "12 \<le> length pv \<Longrightarrow> 12 \<le> length cons \<Longrightarrow>
   baseline_months pv cons [0..<12] ([], [], []) =
     Inr (map (\<lambda>i. min (pv ! i) (cons ! i)) [0..<12],
          map (\<lambda>i. max 0 (cons ! i - pv ! i)) [0..<12],
          map (\<lambda>i. max 0 (pv ! i - cons ! i)) [0..<12])"
  unfolding baseline_months_eq by (auto simp del: upt_Suc)

lemma baseline_short:
  "length pv < 12 \<or> length cons < 12 \<Longrightarrow> calculate_baseline_scenario pv cons p t = Inl IndexError"
  by (simp add: calculate_baseline_scenario_def baseline_months_short del: upt_Suc)

lemma baseline_ok:
  assumes "12 \<le> length pv" "12 \<le> length cons"
  shows "\<exists>b. calculate_baseline_scenario pv cons p t = Inr b
     \<and> baseline_annual_self_consumption b = sum_list (map (\<lambda>i. min (pv ! i) (cons ! i)) [0..<12])
     \<and> baseline_annual_grid_import b = sum_list (map (\<lambda>i. max 0 (cons ! i - pv ! i)) [0..<12])
     \<and> baseline_annual_grid_export b = sum_list (map (\<lambda>i. max 0 (pv ! i - cons ! i)) [0..<12])
     \<and> baseline_self_consumption_rate b =
          (if sum_list pv > 0
           then sum_list (map (\<lambda>i. min (pv ! i) (cons ! i)) [0..<12]) / sum_list pv else 0)"
  unfolding calculate_baseline_scenario_def baseline_months_ok[OF assms]
  by (simp add: Let_def py_div_def del: upt_Suc)

text \<open>
  Claim C2 as stated fails: a call with an empty production list and a negative
  consumption value raises TypeError, not InvalidInputError.
\<close>

theorem invalid_input_not_rejected_as_such:
  "calculate_optimal_bess []
     \<lparr>monthly_kwh = [-1], f1_percent = 33 / 100, f2_percent = 33 / 100, f3_percent = 34 / 100,
      granularity = ''monthly''\<rparr> default_BESSParameters = Inl TypeError
   \<and> calculate_optimal_bess []
     \<lparr>monthly_kwh = [-1], f1_percent = 33 / 100, f2_percent = 33 / 100, f3_percent = 34 / 100,
      granularity = ''monthly''\<rparr> default_BESSParameters \<noteq> Inl InvalidInputError"
  by (simp add: calculate_optimal_bess_def call_baseline_two_args bind_err_def)

text \<open>
  Claim C2, amended. No call of \<open>calculate_optimal_bess\<close> raises InvalidInputError, whatever
  the length or sign of the monthly values: the calculator has no validation step. Its
  baseline step reads the months 0 to 11 by index: called with its four arguments it
  raises IndexError when the production or the consumption list has fewer than 12 values,
  and it returns a result when both have at least 12 values, negative values and further
  entries included.
\<close>

theorem no_input_validation:
  "calculate_optimal_bess pv_production_monthly consumption_profile bess_params
     \<noteq> Inl InvalidInputError
   \<and> (length pv < 12 \<or> length cons < 12 \<longrightarrow>
        calculate_baseline_scenario pv cons price tariff = Inl IndexError)
   \<and> (12 \<le> length pv \<and> 12 \<le> length cons \<longrightarrow>
        (\<exists>b. calculate_baseline_scenario pv cons price tariff = Inr b))"
proof (intro conjI impI)
  show "calculate_optimal_bess pv_production_monthly consumption_profile bess_params
          \<noteq> Inl InvalidInputError"
    by (simp add: calculate_optimal_bess_def call_baseline_two_args bind_err_def)
next
  assume "length pv < 12 \<or> length cons < 12"
  then show "calculate_baseline_scenario pv cons price tariff = Inl IndexError"
    by (rule baseline_short)
next
  assume "12 \<le> length pv \<and> 12 \<le> length cons"
  then show "\<exists>b. calculate_baseline_scenario pv cons price tariff = Inr b"
    using baseline_ok[of pv cons price tariff] by blast
qed

theorem no_input_validation_witness:
  "calculate_baseline_scenario [] [] 0 0 = Inl IndexError
   \<and> (\<exists>b. calculate_baseline_scenario (replicate 12 (-1)) (replicate 13 1) 0 0 = Inr b)"
  using no_input_validation[of "[]"
          "\<lparr>monthly_kwh = [], f1_percent = 0, f2_percent = 0, f3_percent = 0, granularity = []\<rparr>"
          default_BESSParameters "[]" "[]" 0 0]
        no_input_validation[of "[]"
          "\<lparr>monthly_kwh = [], f1_percent = 0, f2_percent = 0, f3_percent = 0, granularity = []\<rparr>"
          default_BESSParameters "replicate 12 (-1)" "replicate 13 1" 0 0]
  by simp

subsection \<open>Guarded divisions\<close>

lemma technical_metrics_eq:
  "calculate_technical_metrics cap thr bp =
     Inr \<lparr>metric_daily_cycles = (if cap * dod bp > 0 then thr / (2 * (cap * dod bp)) else 0),
          metric_total_cycles_20_years =
            (if cap * dod bp > 0 then thr / (2 * (cap * dod bp)) else 0) * 365 * 20,
          metric_capacity_retention_20_years = 1 - min (8 / 10) (degradation_annual bp * 20)\<rparr>"
  by (simp add: calculate_technical_metrics_def Let_def py_div_def)

lemma baseline_no_zero_division:
  "calculate_baseline_scenario pv cons p t \<noteq> Inl ZeroDivisionError"
proof (cases "12 \<le> length pv \<and> 12 \<le> length cons")
  case True
  then show ?thesis using baseline_ok[of pv cons p t] by auto
next
  case False
  then have "length pv < 12 \<or> length cons < 12" by auto
  then show ?thesis by (simp add: baseline_short)
qed

lemma baseline_rate_zero:
  assumes "sum_list pv \<le> 0" "calculate_baseline_scenario pv cons p t = Inr b"
  shows "baseline_self_consumption_rate b = 0"
proof (cases "12 \<le> length pv \<and> 12 \<le> length cons")
  case True
  then show ?thesis
    using assms baseline_ok[of pv cons p t] by auto
next
  case False
  then have "length pv < 12 \<or> length cons < 12" by auto
  then show ?thesis using assms(2) by (simp add: baseline_short)
qed

text \<open>
  Claim C9. The two divisions of the BESS engine are guarded. For every input the
  baseline scenario raises no ZeroDivisionError, and when the production sums to 0 every
  baseline it returns has the self-consumption rate 0; it returns whenever both monthly
  lists have at least 12 values. The technical metrics always return, and when the usable
  capacity (capacity times depth of discharge) is 0 the daily cycle count is 0.
\<close>

theorem bess_divisions_guarded:
  "calculate_baseline_scenario pv cons price tariff \<noteq> Inl ZeroDivisionError
   \<and> (sum_list pv = 0 \<longrightarrow>
        (\<forall>b. calculate_baseline_scenario pv cons price tariff = Inr b
              \<longrightarrow> baseline_self_consumption_rate b = 0))
   \<and> (12 \<le> length pv \<and> 12 \<le> length cons \<longrightarrow>
        (\<exists>b. calculate_baseline_scenario pv cons price tariff = Inr b))
   \<and> (\<exists>m. calculate_technical_metrics bess_capacity daily_throughput bess_params = Inr m
         \<and> (bess_capacity * dod bess_params = 0 \<longrightarrow> metric_daily_cycles m = 0))"
proof (intro conjI impI allI)
  show "calculate_baseline_scenario pv cons price tariff \<noteq> Inl ZeroDivisionError"
    by (rule baseline_no_zero_division)
next
  fix b
  assume "sum_list pv = 0" "calculate_baseline_scenario pv cons price tariff = Inr b"
  then show "baseline_self_consumption_rate b = 0"
    using baseline_rate_zero[of pv cons price tariff b] by simp
next
  assume "12 \<le> length pv \<and> 12 \<le> length cons"
  then show "\<exists>b. calculate_baseline_scenario pv cons price tariff = Inr b"
    using baseline_ok[of pv cons price tariff] by blast
next
  show "\<exists>m. calculate_technical_metrics bess_capacity daily_throughput bess_params = Inr m
         \<and> (bess_capacity * dod bess_params = 0 \<longrightarrow> metric_daily_cycles m = 0)"
    by (simp add: technical_metrics_eq)
qed

theorem bess_divisions_guarded_witness:
  "(\<exists>b. calculate_baseline_scenario (replicate 12 0) (replicate 12 100) (1 / 4) (1 / 20) = Inr b
       \<and> baseline_self_consumption_rate b = 0)
   \<and> (\<exists>m. calculate_technical_metrics 0 5 default_BESSParameters = Inr m \<and> metric_daily_cycles m = 0)"
proof -
  note t = bess_divisions_guarded[of "replicate 12 0" "replicate 12 100" "1 / 4" "1 / 20" 0 5 default_BESSParameters]
  from t[THEN conjunct2, THEN conjunct2, THEN conjunct1]
  obtain b where b: "calculate_baseline_scenario (replicate 12 0) (replicate 12 100) (1 / 4) (1 / 20) = Inr b"
    by auto
  from t[THEN conjunct2, THEN conjunct1] b
  have "baseline_self_consumption_rate b = 0"
    by (simp add: sum_list_replicate)
  moreover from t[THEN conjunct2, THEN conjunct2, THEN conjunct2]
  have "\<exists>m. calculate_technical_metrics 0 5 default_BESSParameters = Inr m \<and> metric_daily_cycles m = 0"
    by simp
  ultimately show ?thesis using b by blast
qed

subsection \<open>The capacity search\<close>

lemma bess_months_total:
  assumes "efficiency bp \<noteq> 0" "\<forall>i \<in> set is. i < length pv \<and> i < length cons"
  shows "\<exists>mr tot d'. bess_months pv cons u bp is (mr0, tot0, Some d) = Inr (mr, tot, Some d')"
  using assms(2)
proof (induction "is" arbitrary: mr0 tot0 d)
  case Nil
  then show ?case by simp
next
  case (Cons i rest)
  then show ?case
    using assms(1)
    by (simp add: py_index_def Let_def surplus_day_def deficit_day_def py_div_def)
qed

lemma bess_scenario_total:
  assumes "12 \<le> length pv" "12 \<le> length cons" "efficiency bp \<noteq> 0" "pv ! 0 \<le> cons ! 0"
  shows "\<exists>sc. calculate_bess_scenario pv cons c bp p t = Inr sc"
proof -
  have up: "[0..<12] = 0 # [1..<12]" by (simp add: upt_conv_Cons)
  have idx: "\<forall>i \<in> set [1..<12]. i < length pv \<and> i < length cons"
    using assms(1,2) by auto
  have d: "\<not> pv ! 0 / 31 > cons ! 0 / 31" using assms(4) by (simp add: divide_right_mono)
  have l: "0 < length pv" "0 < length cons" using assms(1,2) by auto
  obtain mr tot d' where
    "bess_months pv cons (c * dod bp) bp [0..<12] ([], 0, None) = Inr (mr, tot, Some d')"
    unfolding up
    using d l bess_months_total[OF assms(3) idx]
    by (simp add: py_index_def Let_def deficit_day_def days_in_month_table_def del: upt_Suc) blast
  then show ?thesis
    by (simp add: calculate_bess_scenario_def Let_def)
qed

lemma bess_scenario_savings:
  "calculate_bess_scenario pv cons c bp p t = Inr sc \<Longrightarrow> bess_annual_savings sc = 0"
  by (auto simp: calculate_bess_scenario_def Let_def split: sum.splits prod.splits)

lemma npv_simple_loop_eq:
  "1 + r \<noteq> 0 \<Longrightarrow>
   npv_simple_loop a r ys n = Inr (n + a * sum_list (map (\<lambda>y. 1 / (1 + r) ^ y) ys))"
  by (induction ys arbitrary: n) (simp_all add: py_div_def algebra_simps)

lemma annuity_nonneg: "0 < 1 + (r::real) \<Longrightarrow> 0 \<le> sum_list (map (\<lambda>y. 1 / (1 + r) ^ y) ys)"
  by (induction ys) (auto intro!: add_nonneg_nonneg)

lemma candidate_npv_eq:
  assumes "calculate_bess_scenario pv cons c bp p t = Inr sc"
  shows "candidate_npv pv cons c bp p t =
     Inr (- (c * capex_per_kwh bp)
          - c * capex_per_kwh bp * opex_annual_percent bp / 100
            * sum_list (map (\<lambda>y. 1 / (1 + 5 / 100) ^ y) [1..<21]))"
  unfolding candidate_npv_def assms
  by (simp add: Let_def bess_scenario_savings[OF assms] calculate_npv_simple_def
        npv_simple_loop_eq del: upt_Suc)

text \<open>The value the loop body computes, as a function of the capacity alone.\<close>

lemma candidate_npv_decreasing:
  assumes "calculate_bess_scenario pv cons c1 bp p t = Inr sc1"
    and "calculate_bess_scenario pv cons c2 bp p t = Inr sc2"
    and "c1 < c2" "0 < capex_per_kwh bp" "0 \<le> opex_annual_percent bp"
  shows "\<exists>v1 v2. candidate_npv pv cons c1 bp p t = Inr v1
           \<and> candidate_npv pv cons c2 bp p t = Inr v2 \<and> v2 < v1"
proof -
  let ?A = "sum_list (map (\<lambda>y. 1 / (1 + 5 / 100) ^ y) [1..<21]) :: real"
  let ?k = "capex_per_kwh bp * (1 + opex_annual_percent bp / 100 * ?A)"
  have A: "0 \<le> ?A" by (rule annuity_nonneg) simp
  have "0 \<le> opex_annual_percent bp / 100 * ?A"
    using assms(5) A by simp
  then have k: "0 < ?k" using assms(4) by (simp add: add_nonneg_pos)
  have e: "- (c * capex_per_kwh bp) - c * capex_per_kwh bp * opex_annual_percent bp / 100 * ?A
      = - (c * ?k)" for c
    by (simp add: algebra_simps)
  have "c1 * ?k < c2 * ?k" using assms(3) k by (rule mult_strict_right_mono)
  then have "- (c2 * ?k) < - (c1 * ?k)" by (simp only: neg_less_iff_less)
  then show ?thesis
    unfolding candidate_npv_eq[OF assms(1)] candidate_npv_eq[OF assms(2)] e by simp
qed

lemma optimize_loop_keeps:
  assumes step: "0 < step"
    and total: "\<And>c. \<exists>sc. calculate_bess_scenario pv (monthly_kwh cp) c bp p t = Inr sc"
    and k: "0 < capex_per_kwh bp" "0 \<le> opex_annual_percent bp"
    and best: "candidate_npv pv (monthly_kwh cp) opt bp p t = Inr b"
    and lt: "opt < current"
    and n: "max_capacity - current < real n * step"
  shows "optimize_loop pv cp bp p t max_capacity step current (Finite b) opt = Some (Inr opt)"
  using lt n
proof (induction n arbitrary: current)
  case 0
  then have "\<not> current \<le> max_capacity" by simp
  then show ?case by (subst optimize_loop.simps) simp
next
  case (Suc n)
  show ?case
  proof (cases "current \<le> max_capacity")
    case False
    then show ?thesis by (subst optimize_loop.simps) simp
  next
    case True
    obtain sc1 sc2 where sc: "calculate_bess_scenario pv (monthly_kwh cp) opt bp p t = Inr sc1"
      "calculate_bess_scenario pv (monthly_kwh cp) current bp p t = Inr sc2"
      using total by blast
    from candidate_npv_decreasing[OF sc Suc.prems(1) k] best
    obtain v where v: "candidate_npv pv (monthly_kwh cp) current bp p t = Inr v" "v < b"
      by auto
    have "max_capacity - (current + step) < real n * step"
      using Suc.prems(2) by (simp add: algebra_simps)
    moreover have "opt < current + step" using Suc.prems(1) step by simp
    ultimately have "optimize_loop pv cp bp p t max_capacity step (current + step) (Finite b) opt
        = Some (Inr opt)"
      by (rule Suc.IH[rotated])
    then show ?thesis
      using True v by (subst optimize_loop.simps) simp
  qed
qed

lemma optimize_returns_minimum:
  assumes "12 \<le> length pv" "12 \<le> length (monthly_kwh cp)" "efficiency bp \<noteq> 0"
    and "pv ! 0 \<le> monthly_kwh cp ! 0" "0 < sum_list (monthly_kwh cp)"
    and "0 < capex_per_kwh bp" "0 \<le> opex_annual_percent bp"
  shows "optimize_bess_capacity pv cp bp p t = Some (Inr (sum_list (monthly_kwh cp) / 12 * (1 / 10)))"
proof -
  let ?min = "sum_list (monthly_kwh cp) / 12 * (1 / 10)"
  let ?max = "sum_list (monthly_kwh cp) / 12 * 2"
  let ?step = "?min * (1 / 10)"
  have total: "\<And>c. \<exists>sc. calculate_bess_scenario pv (monthly_kwh cp) c bp p t = Inr sc"
    using bess_scenario_total[OF assms(1,2,3,4)] by blast
  have step: "0 < ?step" and le: "?min \<le> ?max" using assms(5) by simp_all
  obtain sc where "calculate_bess_scenario pv (monthly_kwh cp) ?min bp p t = Inr sc"
    using total by blast
  from candidate_npv_eq[OF this]
  obtain b where b: "candidate_npv pv (monthly_kwh cp) ?min bp p t = Inr b" by blast
  obtain n where n: "?max - (?min + ?step) < real n * ?step"
    using ex_less_of_nat_mult[OF step] by blast
  have "?min < ?min + ?step" using step by simp
  from optimize_loop_keeps[OF step total assms(6,7) b this n]
  have rest: "optimize_loop pv cp bp p t ?max ?step (?min + ?step) (Finite b) ?min = Some (Inr ?min)" .
  have "optimize_loop pv cp bp p t ?max ?step ?min NegInf ?min = Some (Inr ?min)"
    using le b rest by (subst optimize_loop.simps) simp
  then show ?thesis
    by (simp add: optimize_bess_capacity_def Let_def)
qed

lemma months12: "[0..<12] = [0, 1, 2, 3, 4, 5, 6, 7, 8, 9, 10, 11]"
  by (simp add: upt_conv_Cons)

lemma years20: "[1..<21] = [1, 2, 3, 4, 5, 6, 7, 8, 9, 10, 11, 12, 13, 14, 15, 16, 17, 18, 19, 20]"
  by (simp add: upt_conv_Cons)

lemma annuity_bound: "8 < sum_list (map (\<lambda>y. 1 / (1 + 5 / 100) ^ y) [1..<21] :: real list)"
  unfolding years20 by (simp add: power_divide)

lemma scenario_120:
  "\<exists>sc. calculate_bess_scenario
     [0, 12000, 12000, 12000, 12000, 12000, 12000, 12000, 12000, 12000, 12000, 12000]
     [1200, 1200, 1200, 1200, 1200, 1200, 1200, 1200, 1200, 1200, 1200, 1200]
     120 default_BESSParameters (1 / 4) (1 / 4) = Inr sc
   \<and> bess_annual_electricity_cost sc = 0
   \<and> bess_annual_feed_in_revenue sc = 403980 / 19"
  unfolding calculate_bess_scenario_def months12
  by (simp add: py_index_def Let_def surplus_day_def deficit_day_def py_div_def
        days_in_month_table_def default_BESSParameters_def)

lemma scenario_132:
  "\<exists>sc. calculate_bess_scenario
     [0, 12000, 12000, 12000, 12000, 12000, 12000, 12000, 12000, 12000, 12000, 12000]
     [1200, 1200, 1200, 1200, 1200, 1200, 1200, 1200, 1200, 1200, 1200, 1200]
     132 default_BESSParameters (1 / 4) (1 / 4) = Inr sc
   \<and> bess_annual_electricity_cost sc = 0
   \<and> bess_annual_feed_in_revenue sc = 387948 / 19"
  unfolding calculate_bess_scenario_def months12
  by (simp add: py_index_def Let_def surplus_day_def deficit_day_def py_div_def
        days_in_month_table_def default_BESSParameters_def)

lemma candidate_npv_spec_eq:
  assumes "calculate_bess_scenario pv cons c bp p t = Inr sc"
  shows "candidate_npv_spec pv cons c bp p t =
     Inr (- (c * capex_per_kwh bp)
          + (bess_annual_electricity_cost sc - bess_annual_feed_in_revenue sc
             - c * capex_per_kwh bp * opex_annual_percent bp / 100)
            * sum_list (map (\<lambda>y. 1 / (1 + 5 / 100) ^ y) [1..<21]))"
  unfolding candidate_npv_spec_def assms
  by (simp add: Let_def calculate_npv_simple_def npv_simple_loop_eq del: upt_Suc)

text \<open>
  Claim C3 (the code differs from it). The production is 0 in January and 12000 kWh in
  every other month, the consumption 1200 kWh in every month, the battery parameters are
  the defaults, and the electricity price and the feed-in tariff are both 0.25. The
  search runs from 120 kWh in steps of 12 kWh. The cash flow of the code is the scenario's
  \<^verbatim>\<open>annual_savings\<close>, which \<^verbatim>\<open>_calculate_bess_scenario\<close> sets to 0, minus the opex: the
  value it computes falls from candidate 120 to candidate 132, and the search returns 120.
  With the cash flow of the claim (import cost minus export revenue minus opex) the
  candidate 132 has the higher net present value, so the capacity returned does not
  achieve the highest one.
\<close>

theorem optimizer_ignores_operating_benefit:
  "optimize_bess_capacity
     [0, 12000, 12000, 12000, 12000, 12000, 12000, 12000, 12000, 12000, 12000, 12000]
     \<lparr>monthly_kwh = [1200, 1200, 1200, 1200, 1200, 1200, 1200, 1200, 1200, 1200, 1200, 1200],
      f1_percent = 33 / 100, f2_percent = 33 / 100, f3_percent = 34 / 100,
      granularity = ''monthly''\<rparr>
     default_BESSParameters (1 / 4) (1 / 4) = Some (Inr 120)
   \<and> (\<exists>v1 v2.
        candidate_npv
          [0, 12000, 12000, 12000, 12000, 12000, 12000, 12000, 12000, 12000, 12000, 12000]
          [1200, 1200, 1200, 1200, 1200, 1200, 1200, 1200, 1200, 1200, 1200, 1200]
          120 default_BESSParameters (1 / 4) (1 / 4) = Inr v1
      \<and> candidate_npv
          [0, 12000, 12000, 12000, 12000, 12000, 12000, 12000, 12000, 12000, 12000, 12000]
          [1200, 1200, 1200, 1200, 1200, 1200, 1200, 1200, 1200, 1200, 1200, 1200]
          132 default_BESSParameters (1 / 4) (1 / 4) = Inr v2
      \<and> v2 < v1)
   \<and> (\<exists>x1 x2.
        candidate_npv_spec
          [0, 12000, 12000, 12000, 12000, 12000, 12000, 12000, 12000, 12000, 12000, 12000]
          [1200, 1200, 1200, 1200, 1200, 1200, 1200, 1200, 1200, 1200, 1200, 1200]
          120 default_BESSParameters (1 / 4) (1 / 4) = Inr x1
      \<and> candidate_npv_spec
          [0, 12000, 12000, 12000, 12000, 12000, 12000, 12000, 12000, 12000, 12000, 12000]
          [1200, 1200, 1200, 1200, 1200, 1200, 1200, 1200, 1200, 1200, 1200, 1200]
          132 default_BESSParameters (1 / 4) (1 / 4) = Inr x2
      \<and> x1 < x2)"
  (is "?R \<and> ?V \<and> ?X")
proof -
  let ?pv = "[0, 12000, 12000, 12000, 12000, 12000, 12000, 12000, 12000, 12000, 12000, 12000] :: real list"
  let ?cons = "[1200, 1200, 1200, 1200, 1200, 1200, 1200, 1200, 1200, 1200, 1200, 1200] :: real list"
  let ?A = "sum_list (map (\<lambda>y. 1 / (1 + 5 / 100) ^ y) [1..<21]) :: real"
  obtain s1 where s1: "calculate_bess_scenario ?pv ?cons 120 default_BESSParameters (1 / 4) (1 / 4) = Inr s1"
      "bess_annual_electricity_cost s1 = 0" "bess_annual_feed_in_revenue s1 = 403980 / 19"
    using scenario_120 by blast
  obtain s2 where s2: "calculate_bess_scenario ?pv ?cons 132 default_BESSParameters (1 / 4) (1 / 4) = Inr s2"
      "bess_annual_electricity_cost s2 = 0" "bess_annual_feed_in_revenue s2 = 387948 / 19"
    using scenario_132 by blast
  have R: ?R
    using optimize_returns_minimum[of ?pv
        "\<lparr>monthly_kwh = ?cons, f1_percent = 33 / 100, f2_percent = 33 / 100,
          f3_percent = 34 / 100, granularity = ''monthly''\<rparr>"
        default_BESSParameters "1 / 4" "1 / 4"]
    by (simp add: default_BESSParameters_def)
  have V: ?V
    by (rule candidate_npv_decreasing[OF s1(1) s2(1)])
       (simp_all add: default_BESSParameters_def)
  have A: "8 < ?A" by (rule annuity_bound)
  have "- (120 * 500) + (0 - 403980 / 19 - 120 * 500 * 1 / 100) * ?A
      < - (132 * 500) + (0 - 387948 / 19 - 132 * 500 * 1 / 100) * ?A"
    using A by (simp add: algebra_simps)
  then have X: ?X
    unfolding candidate_npv_spec_eq[OF s1(1)] candidate_npv_spec_eq[OF s2(1)] s1 s2
    by (simp add: default_BESSParameters_def)
  show ?thesis
    by (rule conjI[OF R conjI[OF V X]])
qed

section \<open>Properties of the economic primitives\<close>

subsection \<open>Net present value\<close>

lemma npv_loop_strict:
  assumes "-1 < r1" "r1 < r2" "1 \<le> i" "\<forall>c \<in> set cfs. 0 < c" "a2 \<le> a1"
  shows "\<exists>v1 v2. npv_loop r1 i cfs a1 = Inr v1 \<and> npv_loop r2 i cfs a2 = Inr v2 \<and> v2 \<le> v1
           \<and> (cfs \<noteq> [] \<or> a2 < a1 \<longrightarrow> v2 < v1)"
  using assms
proof (induction cfs arbitrary: i a1 a2)
  case Nil
  then show ?case by simp
next
  case (Cons c cfs)
  have p1: "0 < 1 + r1" and p2: "0 < 1 + r2" and lt: "1 + r1 < 1 + r2"
    using Cons.prems by simp_all
  have pw: "(1 + r1) ^ i < (1 + r2) ^ i"
    using p1 lt Cons.prems(3) by (intro power_strict_mono) simp_all
  have c: "0 < c" using Cons.prems(4) by simp
  have t: "c / (1 + r2) ^ i < c / (1 + r1) ^ i"
    using c pw p1 by (simp add: frac_less2)
  have le: "a2 + c / (1 + r2) ^ i \<le> a1 + c / (1 + r1) ^ i" and
       ls: "a2 + c / (1 + r2) ^ i < a1 + c / (1 + r1) ^ i"
    using t Cons.prems(5) by simp_all
  have "1 \<le> Suc i" by simp
  from Cons.IH[OF Cons.prems(1,2) this _ le] Cons.prems(4)
  obtain v1 v2 where
    v: "npv_loop r1 (Suc i) cfs (a1 + c / (1 + r1) ^ i) = Inr v1"
       "npv_loop r2 (Suc i) cfs (a2 + c / (1 + r2) ^ i) = Inr v2"
       "v2 \<le> v1" "cfs \<noteq> [] \<or> a2 + c / (1 + r2) ^ i < a1 + c / (1 + r1) ^ i \<longrightarrow> v2 < v1"
    by auto
  from v(4) ls have "v2 < v1" by simp
  with v(1,2) p1 p2 show ?case
    by (auto simp: py_div_def)
qed

text \<open>
  Claim C8 as stated fails on a list with a single entry: no entry has an index
  \<open>i \<ge> 1\<close>, and the value is that entry at every rate.
\<close>

theorem npv_single_entry_constant:
  "calculate_npv [5] (1 / 10) = Inr 5 \<and> calculate_npv [5] (1 / 5) = Inr 5"
  by (simp add: calculate_npv_def py_div_def)

text \<open>
  Claim C8, amended. For every cash-flow list with at least two entries whose entries at
  the indices \<open>i \<ge> 1\<close> are all positive, \<open>calculate_npv\<close> returns a value at every rate
  above \<open>-1\<close>, and the value is strictly decreasing in the rate.
\<close>

theorem npv_strictly_decreasing:
  assumes "-1 < r1" "r1 < r2" "2 \<le> length cash_flows"
    "\<forall>i. 1 \<le> i \<longrightarrow> i < length cash_flows \<longrightarrow> 0 < cash_flows ! i"
  shows "\<exists>v1 v2. calculate_npv cash_flows r1 = Inr v1 \<and> calculate_npv cash_flows r2 = Inr v2
           \<and> v2 < v1"
proof -
  obtain c0 rest where cf: "cash_flows = c0 # rest" and ne: "rest \<noteq> []"
    using assms(3) by (cases cash_flows) (auto simp: Suc_le_eq)
  have pos: "\<forall>c \<in> set rest. 0 < c"
  proof
    fix c assume "c \<in> set rest"
    then obtain j where "j < length rest" "rest ! j = c" by (auto simp: in_set_conv_nth)
    with assms(4)[rule_format, of "Suc j"] cf show "0 < c" by simp
  qed
  from npv_loop_strict[OF assms(1,2) _ pos, of 1 c0 c0] ne
  show ?thesis by (auto simp: calculate_npv_def cf py_div_def)
qed

theorem npv_strictly_decreasing_witness:
  "calculate_npv [-100, 60, 60] 0 = Inr 20
   \<and> (\<exists>v2. calculate_npv [-100, 60, 60] 1 = Inr v2 \<and> v2 < 20)"
  using npv_strictly_decreasing[of 0 1 "[-100, 60, 60]"]
  by (auto simp: calculate_npv_def py_div_def nth_Cons split: nat.splits)

subsection \<open>Payback period\<close>

text \<open>
  Claim C4 (the code differs from it in the first year). For an investment of 100 and the
  single cash flow 200 the cumulative sum reaches the investment in year 0; the claim
  gives \<open>0 + (100 - 0) / 200 = 1/2\<close>, the code returns \<^verbatim>\<open>cf / initial_investment\<close>, which
  is 2.
\<close>

theorem payback_first_year_inverted:
  "calculate_payback 100 [200] = Inr (Finite 2) \<and> payback_spec 100 [200] = Finite (1 / 2)"
  by (simp add: calculate_payback_def payback_spec_def py_div_def)

text \<open>
  In the later years the code follows the specification: when the first cash flow does
  not reach a positive investment, the two agree.
\<close>

lemma payback_loop_later_years:
  "0 < year \<Longrightarrow> cum < I \<Longrightarrow>
   payback_loop I year cum cfs = Inr (payback_spec_from I year cum cfs)"
  by (induction cfs arbitrary: year cum) (auto simp: Let_def py_div_def)

lemma payback_agrees_after_first_year:
  "0 < I \<Longrightarrow> cf < I \<Longrightarrow>
   calculate_payback I (cf # cfs) = Inr (payback_spec I (cf # cfs))"
  using payback_loop_later_years[of "Suc 0" cf I cfs]
  by (simp add: calculate_payback_def payback_spec_def Let_def)

subsection \<open>Internal rate of return\<close>

lemma upt_0_Suc_map: "[0..<Suc n] = 0 # map Suc [0..<n]"
  by (simp add: upt_conv_Cons map_Suc_upt del: upt_Suc)

lemma irr_npv_sum:
  "1 + rate \<noteq> 0 \<Longrightarrow>
   irr_npv rate i cfs acc =
     Inr (acc + sum_list (map (\<lambda>j. cfs ! j / (1 + rate) ^ (i + j)) [0..<length cfs]))"
proof (induction cfs arbitrary: i acc)
  case Nil
  then show ?case by simp
next
  case (Cons c cfs)
  have "length (c # cfs) = Suc (length cfs)" by simp
  then show ?case using Cons
    by (simp add: upt_0_Suc_map py_div_def comp_def add.assoc del: upt_Suc)
qed

lemma sum_skip_first:
  "sum_list (map (\<lambda>j. if j > 0 then f j else (0::real)) [0..<n]) = sum_list (map f [Suc 0..<n])"
proof (cases n)
  case 0
  then show ?thesis by simp
next
  case (Suc m)
  have "map (\<lambda>j. if j > 0 then f j else 0) [Suc 0..<Suc m] = map f [Suc 0..<Suc m]"
    by (rule map_cong) auto
  moreover have "[0..<Suc m] = 0 # [Suc 0..<Suc m]"
    by (simp add: upt_conv_Cons del: upt_Suc)
  ultimately show ?thesis
    unfolding Suc by (simp only: list.map sum_list.Cons) simp
qed

lemma irr_npv_eq: "1 + rate \<noteq> 0 \<Longrightarrow> irr_npv rate 0 cfs 0 = Inr (npv_at cfs rate)"
  by (simp add: irr_npv_sum npv_at_def)

lemma irr_npv_derivative_eq:
  assumes "1 + rate \<noteq> 0"
  shows "irr_npv_derivative rate 0 cfs 0 = Inr (npv_derivative_at cfs rate)"
proof -
  define g where "g = (\<lambda>k c. - real k * c / (1 + rate) ^ (k + 1))"
  have step: "irr_npv_derivative rate i (c # cs) acc =
      irr_npv_derivative rate (Suc i) cs (acc + (if i > 0 then g i c else 0))" for i c cs acc
    using assms by (simp add: g_def py_div_def)
  have gen: "irr_npv_derivative rate i cs acc =
      Inr (acc + sum_list (map (\<lambda>j. if i + j > 0 then g (i + j) (cs ! j) else 0) [0..<length cs]))"
    for i cs acc
  proof (induction cs arbitrary: i acc)
    case Nil
    then show ?case by simp
  next
    case (Cons c cs)
    show ?case
      unfolding step Cons.IH
      by (simp add: upt_0_Suc_map comp_def add.assoc del: upt_Suc)
  qed
  have "irr_npv_derivative rate 0 cfs 0 =
      Inr (sum_list (map (\<lambda>j. if j > 0 then g j (cfs ! j) else 0) [0..<length cfs]))"
    using gen[of 0 cfs 0] by (simp cong: if_cong)
  also have "\<dots> = Inr (sum_list (map (\<lambda>j. g j (cfs ! j)) [Suc 0..<length cfs]))"
    by (simp only: sum_skip_first)
  finally show ?thesis
    by (simp add: npv_derivative_at_def g_def)
qed

lemma irr_clamp_range: "- (99 / 100) \<le> irr_clamp r \<and> irr_clamp r \<le> 10"
  by (simp add: irr_clamp_def)

lemma newton_rate_range: "- (99 / 100) \<le> newton_rate cfs k \<and> newton_rate cfs k \<le> 10"
  by (cases k) (simp_all add: irr_clamp_range)

lemma newton_rate_nonsingular: "1 + newton_rate cfs k \<noteq> 0"
  using newton_rate_range[of cfs k] by simp

lemma irr_loop_refines:
  "irr_loop n (newton_rate cfs k) cfs = Inr (irr_stop_within cfs k n)"
proof (induction n arbitrary: k)
  case 0
  then show ?case by (simp add: irr_stop_within_def)
next
  case (Suc n)
  have up: "[k..<k + Suc n] = k # [Suc k..<Suc k + n]"
    by (simp add: upt_conv_Cons del: upt_Suc)
  have rec: "irr_stop_within cfs k (Suc n) =
      (if irr_converged cfs k then newton_rate cfs k
       else if irr_flat cfs k then irr_final (newton_rate cfs k)
       else irr_stop_within cfs (Suc k) n)"
    unfolding irr_stop_within_def up by (simp del: upt_Suc cong: option.case_cong)
  show ?case
    unfolding rec
    using Suc.IH[of "Suc k"] newton_rate_nonsingular[of cfs k]
    by (auto simp: irr_npv_eq irr_npv_derivative_eq irr_converged_def irr_flat_def py_div_def)
qed

lemma irr_final_range: "- (99 / 100) \<le> r \<Longrightarrow> r \<le> 10 \<Longrightarrow> - (99 / 100) \<le> irr_final r \<and> irr_final r \<le> 10"
  by (simp add: irr_final_def)

lemma irr_stop_within_range: "- (99 / 100) \<le> irr_stop_within cfs k n \<and> irr_stop_within cfs k n \<le> 10"
  using newton_rate_range[of cfs] irr_final_range
  by (auto simp: irr_stop_within_def split: option.splits)

lemma irr_body_total: "irr_body cfs = Inr (irr_spec cfs)"
  using irr_loop_refines[of 100 cfs 0] by (simp add: irr_body_def irr_spec_def)

text \<open>
  Claim C5 as stated fails. The all-positive series \<open>[5]\<close> has a zero derivative, so the
  loop breaks in its first iteration and the initial rate 0.10 is returned, not 0; the
  all-negative series of two entries \<^verbatim>\<open>-1e-7\<close> has \<^verbatim>\<open>|npv| < 1e-6\<close> at once and also
  yields 0.10; and the all-positive series of two entries \<^verbatim>\<open>8e-7\<close> converges in the
  third iteration with the rate clamped at 10, which is returned although it is not
  strictly inside \<open>(-1, 10)\<close>.
\<close>

theorem irr_one_signed_series_not_zero:
  "calculate_irr [5] = 1 / 10
   \<and> calculate_irr [- (1 / 10 ^ 7), - (1 / 10 ^ 7)] = 1 / 10
   \<and> calculate_irr [8 / 10 ^ 7, 8 / 10 ^ 7] = 10"
  by (simp add: calculate_irr_def irr_body_def py_div_def irr_final_def irr_clamp_def
        eval_nat_numeral)

text \<open>
  Claim C5, amended. For every cash-flow list, \<open>calculate_irr\<close> runs Newton-Raphson from
  the rate 0.10 for at most 100 iterations, each update clamped into \<open>[-0.99, 10]\<close>. At
  the first iteration where \<^verbatim>\<open>|npv| < 1e-6\<close> it returns the current rate as it is; at the
  first iteration where the derivative is below \<^verbatim>\<open>1e-10\<close> in magnitude, or after 100
  iterations, it returns the current rate if that lies strictly inside \<open>(-1, 10)\<close> and 0
  otherwise. The \<^verbatim>\<open>try\<close> block raises nothing, and the result lies in \<open>[-0.99, 10]\<close>. (The
  value of a series of one sign is whatever this iteration yields, not always 0.)
\<close>

theorem calculate_irr_refines_newton:
  "irr_body cash_flows = Inr (irr_spec cash_flows)
   \<and> calculate_irr cash_flows = irr_spec cash_flows
   \<and> - (99 / 100) \<le> calculate_irr cash_flows \<and> calculate_irr cash_flows \<le> 10"
  using irr_stop_within_range[of cash_flows 0 100]
  by (simp add: calculate_irr_def irr_body_total irr_spec_def)

section \<open>Properties of the economic evaluation engine\<close>

subsection \<open>The PV-only scenario\<close>

lemma pv_only_months_eq:
  "pv_only_months pv cons is (a, b, c) =
     (if \<forall>i \<in> set is. i < length pv \<and> i < length cons
      then Inr (a @ map (\<lambda>i. min (pv ! i) (cons ! i)) is,
                b @ map (\<lambda>i. max 0 (pv ! i - cons ! i)) is,
                c @ map (\<lambda>i. max 0 (cons ! i - pv ! i)) is)
      else Inl IndexError)"
  by (induction "is" arbitrary: a b c) (auto simp: py_index_def Let_def)

lemma pv_only_months_short:
  "length pv < 12 \<or> length cons < 12 \<Longrightarrow>
   pv_only_months pv cons [0..<12] ([], [], []) = Inl IndexError"
  unfolding pv_only_months_eq by (auto simp del: upt_Suc)

lemma pv_only_months_ok:
  "12 \<le> length pv \<Longrightarrow> 12 \<le> length cons \<Longrightarrow>
   pv_only_months pv cons [0..<12] ([], [], []) =
     Inr (map (\<lambda>i. min (pv ! i) (cons ! i)) [0..<12],
          map (\<lambda>i. max 0 (pv ! i - cons ! i)) [0..<12],
          map (\<lambda>i. max 0 (cons ! i - pv ! i)) [0..<12])"
  unfolding pv_only_months_eq by (auto simp del: upt_Suc)

lemma npv_loop_total: "1 + r \<noteq> 0 \<Longrightarrow> \<exists>v. npv_loop r i cfs a = Inr v"
  by (induction cfs arbitrary: i a) (simp_all add: py_div_def)

lemma calculate_npv_total: "r \<noteq> -1 \<Longrightarrow> \<exists>v. calculate_npv cfs r = Inr v"
  unfolding calculate_npv_def by (rule npv_loop_total) auto

lemma payback_loop_later_total:
  "0 < year \<Longrightarrow> cum < I \<Longrightarrow> \<exists>v. payback_loop I year cum cfs = Inr v"
  by (induction cfs arbitrary: year cum) (auto simp: Let_def py_div_def)

lemma calculate_payback_total: "I \<noteq> 0 \<Longrightarrow> \<exists>v. calculate_payback I cfs = Inr v"
proof (cases cfs)
  case Nil
  then show ?thesis by (simp add: calculate_payback_def)
next
  case (Cons cf rest)
  assume "I \<noteq> 0"
  then show ?thesis
    using payback_loop_later_total[of "Suc 0" cf I rest]
    by (auto simp: calculate_payback_def Cons Let_def py_div_def)
qed

lemma pv_only_returns:
  assumes "12 \<le> length pv" "12 \<le> length cons" "wacc ep \<noteq> -1" "kwp * pv_capex_per_kwp ep \<noteq> 0"
  shows "\<exists>s. calculate_pv_only_scenario kwp ann pv cons ep = Inr s"
proof -
  let ?sav = "sum_list (map (\<lambda>i. min (pv ! i) (cons ! i)) [0..<12]) * avg_electricity_price ep
      + sum_list (map (\<lambda>i. max 0 (pv ! i - cons ! i)) [0..<12]) * feed_in_tariff ep"
  let ?cfs = "escalated_cash_flows ?sav (kwp * pv_capex_per_kwp ep * pv_opex_annual_percent ep) ep"
  obtain v where v: "calculate_npv ((- (kwp * pv_capex_per_kwp ep)) # ?cfs) (wacc ep) = Inr v"
    using calculate_npv_total[OF assms(3)] by blast
  obtain w where w: "calculate_payback (kwp * pv_capex_per_kwp ep) ?cfs = Inr w"
    using calculate_payback_total[OF assms(4)] by blast
  show ?thesis
    unfolding calculate_pv_only_scenario_def pv_only_months_ok[OF assms(1,2)]
    by (simp add: Let_def v w del: upt_Suc)
qed

lemma pv_only_fields:
  assumes "calculate_pv_only_scenario kwp ann pv cons ep = Inr s"
  shows "12 \<le> length pv \<and> 12 \<le> length cons
     \<and> scenario_annual_self_consumption s = sum_list (map (\<lambda>i. min (pv ! i) (cons ! i)) [0..<12])
     \<and> scenario_annual_grid_export s = sum_list (map (\<lambda>i. max 0 (pv ! i - cons ! i)) [0..<12])
     \<and> scenario_annual_grid_import s = sum_list (map (\<lambda>i. max 0 (cons ! i - pv ! i)) [0..<12])"
proof (cases "12 \<le> length pv \<and> 12 \<le> length cons")
  case True
  then show ?thesis
    using assms unfolding calculate_pv_only_scenario_def
    by (auto simp: pv_only_months_ok Let_def simp del: upt_Suc split: sum.splits)
next
  case False
  then have "length pv < 12 \<or> length cons < 12" by auto
  then show ?thesis
    using assms unfolding calculate_pv_only_scenario_def
    by (simp add: pv_only_months_short del: upt_Suc)
qed

lemma conservation: "min p c + max 0 (p - c) = (p::real) \<and> min p c + max 0 (c - p) = c"
  by (auto simp: min_def max_def)

text \<open>
  Claim C7. For monthly lists of at least 12 values (of any sign), in the baseline
  scenario of the BESS engine and in the PV-only scenario builder alike, the monthly
  lists built by the loop have 12 entries, every month \<open>i < 12\<close> satisfies
  self-consumption + export = production and self-consumption + import = consumption,
  and the annual totals of the returned scenario are the sums of the 12 monthly values.
  The baseline scenario always returns on such lists; the PV-only builder returns when the
  discount rate is not \<open>-1\<close> and the PV capital cost is not 0.
\<close>

theorem monthly_energy_conservation:
  assumes "12 \<le> length pv" "12 \<le> length cons"
  shows
   "(\<exists>msc mgi mge.
       baseline_months pv cons [0..<12] ([], [], []) = Inr (msc, mgi, mge)
       \<and> length msc = 12 \<and> length mgi = 12 \<and> length mge = 12
       \<and> (\<forall>i<12. msc ! i + mge ! i = pv ! i \<and> msc ! i + mgi ! i = cons ! i)
       \<and> (\<exists>b. calculate_baseline_scenario pv cons price tariff = Inr b
              \<and> baseline_annual_self_consumption b = sum_list msc
              \<and> baseline_annual_grid_import b = sum_list mgi
              \<and> baseline_annual_grid_export b = sum_list mge))
    \<and> (\<exists>msc mge mgi.
       pv_only_months pv cons [0..<12] ([], [], []) = Inr (msc, mge, mgi)
       \<and> length msc = 12 \<and> length mge = 12 \<and> length mgi = 12
       \<and> (\<forall>i<12. msc ! i + mge ! i = pv ! i \<and> msc ! i + mgi ! i = cons ! i)
       \<and> (\<forall>s. calculate_pv_only_scenario pv_power_kwp pv_production_annual pv cons ep = Inr s
              \<longrightarrow> scenario_annual_self_consumption s = sum_list msc
                \<and> scenario_annual_grid_export s = sum_list mge
                \<and> scenario_annual_grid_import s = sum_list mgi)
       \<and> (wacc ep \<noteq> -1 \<and> pv_power_kwp * pv_capex_per_kwp ep \<noteq> 0
            \<longrightarrow> (\<exists>s. calculate_pv_only_scenario pv_power_kwp pv_production_annual pv cons ep = Inr s)))"
proof (intro conjI)
  show "\<exists>msc mgi mge.
       baseline_months pv cons [0..<12] ([], [], []) = Inr (msc, mgi, mge)
       \<and> length msc = 12 \<and> length mgi = 12 \<and> length mge = 12
       \<and> (\<forall>i<12. msc ! i + mge ! i = pv ! i \<and> msc ! i + mgi ! i = cons ! i)
       \<and> (\<exists>b. calculate_baseline_scenario pv cons price tariff = Inr b
              \<and> baseline_annual_self_consumption b = sum_list msc
              \<and> baseline_annual_grid_import b = sum_list mgi
              \<and> baseline_annual_grid_export b = sum_list mge)"
    using baseline_ok[OF assms, of price tariff]
    by (auto simp: baseline_months_ok[OF assms] conservation simp del: upt_Suc)
next
  show "\<exists>msc mge mgi.
       pv_only_months pv cons [0..<12] ([], [], []) = Inr (msc, mge, mgi)
       \<and> length msc = 12 \<and> length mge = 12 \<and> length mgi = 12
       \<and> (\<forall>i<12. msc ! i + mge ! i = pv ! i \<and> msc ! i + mgi ! i = cons ! i)
       \<and> (\<forall>s. calculate_pv_only_scenario pv_power_kwp pv_production_annual pv cons ep = Inr s
              \<longrightarrow> scenario_annual_self_consumption s = sum_list msc
                \<and> scenario_annual_grid_export s = sum_list mge
                \<and> scenario_annual_grid_import s = sum_list mgi)
       \<and> (wacc ep \<noteq> -1 \<and> pv_power_kwp * pv_capex_per_kwp ep \<noteq> 0
            \<longrightarrow> (\<exists>s. calculate_pv_only_scenario pv_power_kwp pv_production_annual pv cons ep = Inr s))"
    using pv_only_fields[of pv_power_kwp pv_production_annual pv cons ep]
      pv_only_returns[OF assms, of ep pv_power_kwp pv_production_annual]
    by (auto simp: pv_only_months_ok[OF assms] conservation simp del: upt_Suc)
qed

theorem monthly_energy_conservation_witness:
  "\<exists>msc mgi mge.
     baseline_months [300, 100, 100, 100, 100, 100, 100, 100, 100, 100, 100, 100]
       [200, 150, 150, 150, 150, 150, 150, 150, 150, 150, 150, 150] [0..<12] ([], [], [])
       = Inr (msc, mgi, mge)
     \<and> msc ! 0 + mge ! 0 = 300 \<and> msc ! 0 + mgi ! 0 = 200
     \<and> msc ! 1 + mge ! 1 = 100 \<and> msc ! 1 + mgi ! 1 = 150"
proof -
  note t = monthly_energy_conservation[of
      "[300, 100, 100, 100, 100, 100, 100, 100, 100, 100, 100, 100]"
      "[200, 150, 150, 150, 150, 150, 150, 150, 150, 150, 150, 150]", THEN conjunct1]
  have "12 \<le> length [300, 100, 100, 100, 100, 100, 100, 100, 100, 100, 100, 100 :: real]"
       "12 \<le> length [200, 150, 150, 150, 150, 150, 150, 150, 150, 150, 150, 150 :: real]"
    by simp_all
  from t[OF this] obtain msc mgi mge where
    m: "baseline_months [300, 100, 100, 100, 100, 100, 100, 100, 100, 100, 100, 100]
       [200, 150, 150, 150, 150, 150, 150, 150, 150, 150, 150, 150] [0..<12] ([], [], [])
       = Inr (msc, mgi, mge)"
    and c: "\<forall>i<12. msc ! i + mge ! i
                = [300, 100, 100, 100, 100, 100, 100, 100, 100, 100, 100, 100] ! i
              \<and> msc ! i + mgi ! i
                = [200, 150, 150, 150, 150, 150, 150, 150, 150, 150, 150, 150] ! i"
    by blast
  from c[rule_format, of 0] c[rule_format, of 1]
  have "msc ! 0 + mge ! 0 = 300 \<and> msc ! 0 + mgi ! 0 = 200
     \<and> msc ! 1 + mge ! 1 = 100 \<and> msc ! 1 + mgi ! 1 = 150"
    by simp
  with m show ?thesis by blast
qed

subsection \<open>The fallback without a battery\<close>

lemma discounted_total: "1 + r \<noteq> 0 \<Longrightarrow> \<exists>ts. discounted r xs = Inr ts"
  by (induction r xs rule: discounted.induct) (auto simp: py_div_def)

lemma calculate_lcoe_total:
  assumes "wacc ep \<noteq> -1"
  shows "\<exists>l. calculate_lcoe capex opex production ep = Inr l"
proof -
  have ns: "1 + wacc ep \<noteq> 0" using assms by auto
  obtain ps where ps: "discounted (wacc ep)
        (map (\<lambda>year. (year, production)) [1..<nat (analysis_years ep + 1)]) = Inr ps"
    using discounted_total[OF ns] by blast
  let ?costs = "capex # map (\<lambda>year. opex * (1 + opex_escalation ep) ^ year) (py_range (analysis_years ep))"
  obtain cs where cs: "discounted (wacc ep) (zip [0..<length ?costs] ?costs) = Inr cs"
    using discounted_total[OF ns] by blast
  show ?thesis
    unfolding calculate_lcoe_def Let_def ps
    using cs by (auto simp: py_div_def simp del: upt_Suc)
qed

lemma fallback_result:
  assumes "\<not> (truthy cap \<and> truthy inc)"
    and "calculate_pv_only_scenario kwp ann pv cons (params_or_default ep) = Inr s"
    and "calculate_lcoe (scenario_capex s) (scenario_annual_opex s) ann (params_or_default ep) = Inr l"
  shows "calculate_complete_economic_analysis kwp ann pv cann cons cap thr inc ep =
     Inr \<lparr>pv_only_npv = scenario_npv s,
          pv_only_irr = scenario_irr s,
          pv_only_payback = scenario_payback s,
          pv_only_capex = scenario_capex s,
          pv_only_annual_savings = scenario_annual_savings s,
          pv_bess_npv = scenario_npv s,
          pv_bess_irr = scenario_irr s,
          pv_bess_payback = scenario_payback s,
          pv_bess_capex = scenario_capex s,
          pv_bess_annual_savings = scenario_annual_savings s,
          bess_incremental_npv = 0,
          bess_incremental_irr = 0,
          bess_incremental_payback = PosInf,
          annual_cash_flows_pv = scenario_cash_flows s,
          annual_cash_flows_pv_bess = scenario_cash_flows s,
          sensitivity_analysis =
            calculate_sensitivity_analysis kwp ann cann (or_zero cap) (params_or_default ep),
          total_investment = scenario_capex s,
          total_annual_production = ann,
          total_annual_savings = scenario_annual_savings s,
          lcoe = l\<rparr>"
proof -
  from assms(1) have f: "(truthy cap \<and> truthy inc) = False" by simp
  show ?thesis
    unfolding calculate_complete_economic_analysis_def Let_def
    by (simp add: f assms(2,3))
qed

lemma truthy_None_or:
  "cap = None \<or> inc = None \<Longrightarrow> \<not> (truthy cap \<and> truthy inc)"
  by auto

lemma complete_fallback_general:
  assumes "\<not> (truthy cap \<and> truthy inc)"
  shows "calculate_complete_economic_analysis kwp ann pv cann cons cap thr inc ep =
     map_sum id (\<lambda>r0. r0\<lparr>sensitivity_analysis :=
                   calculate_sensitivity_analysis kwp ann cann (or_zero cap) (params_or_default ep)\<rparr>)
       (calculate_complete_economic_analysis kwp ann pv cann cons None thr None ep)"
proof -
  from assms have f: "(truthy cap \<and> truthy inc) = False" by simp
  show ?thesis
    unfolding calculate_complete_economic_analysis_def Let_def
    by (simp add: f split: sum.splits)
qed

lemma complete_fallback_fields:
  assumes "\<not> (truthy cap \<and> truthy inc)"
    and "calculate_complete_economic_analysis kwp ann pv cann cons cap thr inc ep = Inr r"
  shows "bess_incremental_npv r = 0 \<and> bess_incremental_irr r = 0
          \<and> bess_incremental_payback r = PosInf
          \<and> pv_bess_npv r = pv_only_npv r \<and> pv_bess_irr r = pv_only_irr r
          \<and> pv_bess_payback r = pv_only_payback r \<and> pv_bess_capex r = pv_only_capex r
          \<and> pv_bess_annual_savings r = pv_only_annual_savings r
          \<and> annual_cash_flows_pv_bess r = annual_cash_flows_pv r
          \<and> total_investment r = pv_only_capex r
          \<and> total_annual_savings r = pv_only_annual_savings r"
proof -
  from assms(1) have f: "(truthy cap \<and> truthy inc) = False" by simp
  show ?thesis
    using assms(2) unfolding calculate_complete_economic_analysis_def Let_def
    by (auto simp: f split: sum.splits)
qed

lemma payback_zero_investment:
  "0 < cf \<Longrightarrow> calculate_payback 0 (cf # rest) = Inl ZeroDivisionError"
  by (simp add: calculate_payback_def py_div_def)

lemma escalated_first:
  "0 < analysis_years ep \<Longrightarrow>
   \<exists>rest. escalated_cash_flows sav opex ep = (sav - opex) # rest"
proof -
  assume "0 < analysis_years ep"
  then have "0 < nat (analysis_years ep)" by simp
  then have "[0..<nat (analysis_years ep)] = 0 # [Suc 0..<nat (analysis_years ep)]"
    by (simp add: upt_conv_Cons)
  then show ?thesis
    by (simp add: escalated_cash_flows_def py_range_def)
qed

lemma pv_only_zero_capex:
  assumes "12 \<le> length pv" "12 \<le> length cons" "wacc ep \<noteq> -1"
    and "kwp * pv_capex_per_kwp ep = 0" "0 < analysis_years ep"
    and "0 < sum_list (map (\<lambda>i. min (pv ! i) (cons ! i)) [0..<12]) * avg_electricity_price ep
           + sum_list (map (\<lambda>i. max 0 (pv ! i - cons ! i)) [0..<12]) * feed_in_tariff ep"
  shows "calculate_pv_only_scenario kwp ann pv cons ep = Inl ZeroDivisionError"
proof -
  let ?sav = "sum_list (map (\<lambda>i. min (pv ! i) (cons ! i)) [0..<12]) * avg_electricity_price ep
      + sum_list (map (\<lambda>i. max 0 (pv ! i - cons ! i)) [0..<12]) * feed_in_tariff ep"
  obtain rest where rest: "escalated_cash_flows ?sav 0 ep = (?sav - 0) # rest"
    using escalated_first[OF assms(5)] by blast
  obtain v where v: "calculate_npv (0 # escalated_cash_flows ?sav 0 ep) (wacc ep) = Inr v"
    using calculate_npv_total[OF assms(3)] by blast
  have p: "calculate_payback 0 (escalated_cash_flows ?sav 0 ep) = Inl ZeroDivisionError"
    unfolding rest using assms(6) by (simp add: payback_zero_investment)
  show ?thesis
    unfolding calculate_pv_only_scenario_def pv_only_months_ok[OF assms(1,2)]
    by (simp add: Let_def assms(4) v p del: upt_Suc)
qed

text \<open>
  Claim C6 as stated fails: a call without battery arguments can raise. With empty
  monthly lists the PV-only scenario raises IndexError; with 12 monthly values, the
  default parameters and an installed power of 0 (so a PV capital cost of 0) the payback
  computation divides the first cash flow by the investment and raises ZeroDivisionError.
\<close>

theorem fallback_call_can_raise:
  "calculate_complete_economic_analysis 100 0 [] 0 [] None None None None = Inl IndexError
   \<and> calculate_complete_economic_analysis 0 120000
        [10000, 10000, 10000, 10000, 10000, 10000, 10000, 10000, 10000, 10000, 10000, 10000]
        180000
        [15000, 15000, 15000, 15000, 15000, 15000, 15000, 15000, 15000, 15000, 15000, 15000]
        None None None None = Inl ZeroDivisionError"
proof -
  have a: "calculate_complete_economic_analysis 100 0 [] 0 [] None None None None = Inl IndexError"
    by (simp add: calculate_complete_economic_analysis_def calculate_pv_only_scenario_def
          pv_only_months_short del: upt_Suc)
  have "calculate_pv_only_scenario 0 120000
        [10000, 10000, 10000, 10000, 10000, 10000, 10000, 10000, 10000, 10000, 10000, 10000]
        [15000, 15000, 15000, 15000, 15000, 15000, 15000, 15000, 15000, 15000, 15000, 15000]
        default_EconomicParameters = Inl ZeroDivisionError"
    by (rule pv_only_zero_capex)
       (simp_all add: default_EconomicParameters_def avg_electricity_price_def months12)
  then have b: "calculate_complete_economic_analysis 0 120000
        [10000, 10000, 10000, 10000, 10000, 10000, 10000, 10000, 10000, 10000, 10000, 10000]
        180000
        [15000, 15000, 15000, 15000, 15000, 15000, 15000, 15000, 15000, 15000, 15000, 15000]
        None None None None = Inl ZeroDivisionError"
    by (simp add: calculate_complete_economic_analysis_def params_or_default_def)
  from a b show ?thesis by (rule conjI)
qed

text \<open>
  Claim C6, amended. For every call with at least 12 values in both monthly lists, a
  discount rate other than \<open>-1\<close> and a PV capital cost other than 0, in which
  \<open>bess_capacity_kwh\<close> or \<open>bess_self_consumption_increase\<close> is absent, the call returns a
  result whose incremental NPV and IRR are 0, whose incremental payback is positive
  infinity, and whose PV+BESS fields equal the PV-only fields.
\<close>

theorem fallback_without_bess:
  assumes "bess_capacity_kwh = None \<or> bess_self_consumption_increase = None"
    and "12 \<le> length pv_production_monthly" "12 \<le> length consumption_monthly"
    and "wacc (params_or_default economic_params) \<noteq> -1"
    and "pv_power_kwp * pv_capex_per_kwp (params_or_default economic_params) \<noteq> 0"
  shows "\<exists>r. calculate_complete_economic_analysis pv_power_kwp pv_production_annual
               pv_production_monthly consumption_annual consumption_monthly bess_capacity_kwh
               bess_annual_throughput bess_self_consumption_increase economic_params = Inr r
          \<and> bess_incremental_npv r = 0 \<and> bess_incremental_irr r = 0
          \<and> bess_incremental_payback r = PosInf
          \<and> pv_bess_npv r = pv_only_npv r \<and> pv_bess_irr r = pv_only_irr r
          \<and> pv_bess_payback r = pv_only_payback r \<and> pv_bess_capex r = pv_only_capex r
          \<and> pv_bess_annual_savings r = pv_only_annual_savings r
          \<and> annual_cash_flows_pv_bess r = annual_cash_flows_pv r
          \<and> total_investment r = pv_only_capex r
          \<and> total_annual_savings r = pv_only_annual_savings r"
proof -
  obtain s where s: "calculate_pv_only_scenario pv_power_kwp pv_production_annual
      pv_production_monthly consumption_monthly (params_or_default economic_params) = Inr s"
    using pv_only_returns[OF assms(2,3,4,5)] by blast
  obtain l where l: "calculate_lcoe (scenario_capex s) (scenario_annual_opex s)
      pv_production_annual (params_or_default economic_params) = Inr l"
    using calculate_lcoe_total[OF assms(4)] by blast
  show ?thesis
    unfolding fallback_result[OF truthy_None_or[OF assms(1)] s l] by simp
qed

theorem fallback_without_bess_witness:
  "\<exists>r. calculate_complete_economic_analysis 100 120000 (replicate 12 10000) 200000
         (replicate 12 15000) None None None None = Inr r
       \<and> bess_incremental_npv r = 0 \<and> bess_incremental_irr r = 0
       \<and> bess_incremental_payback r = PosInf
       \<and> pv_bess_npv r = pv_only_npv r \<and> pv_bess_irr r = pv_only_irr r
       \<and> pv_bess_payback r = pv_only_payback r \<and> pv_bess_capex r = pv_only_capex r
       \<and> pv_bess_annual_savings r = pv_only_annual_savings r
       \<and> annual_cash_flows_pv_bess r = annual_cash_flows_pv r
       \<and> total_investment r = pv_only_capex r
       \<and> total_annual_savings r = pv_only_annual_savings r"
  using fallback_without_bess[of None None "replicate 12 10000" "replicate 12 15000" None 100 120000 200000 None]
  by (simp add: params_or_default_def default_EconomicParameters_def)

text \<open>
  Claim C10. The fallback is chosen by truth value: with both arguments present and
  \<open>bess_capacity_kwh = 0\<close> or \<open>bess_self_consumption_increase = 0\<close>, the call behaves as
  the call without the two arguments, errors included; the results differ at most in the
  sensitivity table, which is computed from the capacity given. Every result of such a
  call has incremental NPV 0, incremental IRR 0, incremental payback positive infinity
  and PV+BESS fields equal to the PV-only fields, and the call returns under the
  conditions of the amended claim C6.
\<close>

theorem zero_bess_arguments_fall_back:
  assumes "c = 0 \<or> d = 0"
  shows
   "calculate_complete_economic_analysis pv_power_kwp pv_production_annual
        pv_production_monthly consumption_annual consumption_monthly (Some c)
        bess_annual_throughput (Some d) economic_params =
      map_sum id
        (\<lambda>r0. r0\<lparr>sensitivity_analysis :=
                 calculate_sensitivity_analysis pv_power_kwp pv_production_annual
                   consumption_annual c (params_or_default economic_params)\<rparr>)
        (calculate_complete_economic_analysis pv_power_kwp pv_production_annual
           pv_production_monthly consumption_annual consumption_monthly None
           bess_annual_throughput None economic_params)
    \<and> (\<forall>r. calculate_complete_economic_analysis pv_power_kwp pv_production_annual
              pv_production_monthly consumption_annual consumption_monthly (Some c)
              bess_annual_throughput (Some d) economic_params = Inr r
          \<longrightarrow> bess_incremental_npv r = 0 \<and> bess_incremental_irr r = 0
            \<and> bess_incremental_payback r = PosInf
            \<and> pv_bess_npv r = pv_only_npv r \<and> pv_bess_irr r = pv_only_irr r
            \<and> pv_bess_payback r = pv_only_payback r \<and> pv_bess_capex r = pv_only_capex r
            \<and> pv_bess_annual_savings r = pv_only_annual_savings r
            \<and> annual_cash_flows_pv_bess r = annual_cash_flows_pv r
            \<and> total_investment r = pv_only_capex r
            \<and> total_annual_savings r = pv_only_annual_savings r)
    \<and> (12 \<le> length pv_production_monthly \<and> 12 \<le> length consumption_monthly
        \<and> wacc (params_or_default economic_params) \<noteq> -1
        \<and> pv_power_kwp * pv_capex_per_kwp (params_or_default economic_params) \<noteq> 0
        \<longrightarrow> (\<exists>r. calculate_complete_economic_analysis pv_power_kwp pv_production_annual
                pv_production_monthly consumption_annual consumption_monthly (Some c)
                bess_annual_throughput (Some d) economic_params = Inr r))"
  (is "?A \<and> ?B \<and> ?C")
proof -
  have f: "\<not> (truthy (Some c) \<and> truthy (Some d))"
    using assms by auto
  have oz: "or_zero (Some c) = c" by simp
  have A: ?A
    using complete_fallback_general[OF f] unfolding oz .
  have B: ?B
    using complete_fallback_fields[OF f] by blast
  have C: ?C
  proof
    assume a: "12 \<le> length pv_production_monthly \<and> 12 \<le> length consumption_monthly
        \<and> wacc (params_or_default economic_params) \<noteq> -1
        \<and> pv_power_kwp * pv_capex_per_kwp (params_or_default economic_params) \<noteq> 0"
    obtain s where s: "calculate_pv_only_scenario pv_power_kwp pv_production_annual
        pv_production_monthly consumption_monthly (params_or_default economic_params) = Inr s"
      using pv_only_returns[of pv_production_monthly consumption_monthly
              "params_or_default economic_params" pv_power_kwp pv_production_annual] a
      by blast
    obtain l where l: "calculate_lcoe (scenario_capex s) (scenario_annual_opex s)
        pv_production_annual (params_or_default economic_params) = Inr l"
      using calculate_lcoe_total[of "params_or_default economic_params"] a by blast
    show "\<exists>r. calculate_complete_economic_analysis pv_power_kwp pv_production_annual
                pv_production_monthly consumption_annual consumption_monthly (Some c)
                bess_annual_throughput (Some d) economic_params = Inr r"
      unfolding fallback_result[OF f s l] by blast
  qed
  show ?thesis
    by (rule conjI[OF A conjI[OF B C]])
qed

theorem zero_bess_arguments_fall_back_witness:
  "\<exists>r. calculate_complete_economic_analysis 100 120000 (replicate 12 10000) 200000
         (replicate 12 15000) (Some 50) None (Some 0) None = Inr r
      \<and> bess_incremental_npv r = 0 \<and> bess_incremental_irr r = 0
      \<and> bess_incremental_payback r = PosInf
      \<and> pv_bess_npv r = pv_only_npv r \<and> pv_bess_irr r = pv_only_irr r
      \<and> pv_bess_payback r = pv_only_payback r \<and> pv_bess_capex r = pv_only_capex r
      \<and> pv_bess_annual_savings r = pv_only_annual_savings r
      \<and> annual_cash_flows_pv_bess r = annual_cash_flows_pv r"
proof -
  have z: "(50::real) = 0 \<or> (0::real) = 0" by simp
  note t = zero_bess_arguments_fall_back[OF z, of 100 120000 "replicate 12 10000" 200000 "replicate 12 15000" None None]
  from t[THEN conjunct2, THEN conjunct2]
  have "\<exists>r. calculate_complete_economic_analysis 100 120000 (replicate 12 10000) 200000
         (replicate 12 15000) (Some 50) None (Some 0) None = Inr r"
    by (simp add: params_or_default_def default_EconomicParameters_def)
  then obtain r where r: "calculate_complete_economic_analysis 100 120000 (replicate 12 10000)
         200000 (replicate 12 15000) (Some 50) None (Some 0) None = Inr r" ..
  from t[THEN conjunct2, THEN conjunct1] r have "bess_incremental_npv r = 0 \<and> bess_incremental_irr r = 0
      \<and> bess_incremental_payback r = PosInf
      \<and> pv_bess_npv r = pv_only_npv r \<and> pv_bess_irr r = pv_only_irr r
      \<and> pv_bess_payback r = pv_only_payback r \<and> pv_bess_capex r = pv_only_capex r
      \<and> pv_bess_annual_savings r = pv_only_annual_savings r
      \<and> annual_cash_flows_pv_bess r = annual_cash_flows_pv r"
    by blast
  with r show ?thesis by blast
qed


end
